theory Spec2Isabelle
  imports Complex_Main "HOL-Library.Word" "HOL-Library.Signed_Division"
begin

section \<open>RenderSync: the hand-off between the Qt thread and the worker thread\<close>

text \<open>
  \<^verbatim>\<open>minimal_scene.cpp\<close>, class \<^verbatim>\<open>RenderSync\<close> (lines 135-180) and its four member
  functions (lines 211-267). The class holds a \<^verbatim>\<open>std::mutex\<close>, a
  \<^verbatim>\<open>std::condition_variable\<close> and the enumeration \<^verbatim>\<open>RenderStallState\<close>, initially
  \<^verbatim>\<open>QtCanProceed\<close>. Every access to \<^verbatim>\<open>renderStallState\<close> happens with the mutex held, so an
  interleaving of the statements of the threads is an adequate semantics.

  Three threads take part: the Qt scene-graph thread, which calls
  \<^verbatim>\<open>WaitForWorkerThread\<close> (from \<^verbatim>\<open>TextureNode::PrepareNode\<close>); the worker thread, which runs
  \<^verbatim>\<open>IgnRenderer::Render\<close>, that is \<^verbatim>\<open>WaitForQtThreadAndBlock\<close>, the frame, and
  \<^verbatim>\<open>ReleaseQtThreadFromBlock\<close>; and the GUI thread, which may call \<^verbatim>\<open>Shutdown\<close> once
  (from the destructor of \<^verbatim>\<open>RenderWindowItem\<close>).
\<close>

datatype RenderStallState = WorkerCanProceed | WorkerIsProceeding | QtCanProceed | ShuttingDown

datatype thread = QtThread | WorkerThread | GuiThread

text \<open>
  Program counters. Each names the statement the thread executes next.

  \<^verbatim>\<open>WaitForWorkerThread\<close>: \<open>Q_Lock1\<close> is the construction of the \<^verbatim>\<open>unique_lock\<close> (line 231),
  \<open>Q_Wait1\<close> the predicate test of the first \<^verbatim>\<open>cv.wait\<close> with the mutex held (line 234),
  \<open>Q_Sleep1\<close> the inside of that wait with the mutex released, \<open>Q_Set\<close> line 241,
  \<open>Q_Unlock\<close> line 243, \<open>Q_Notify\<close> line 245, \<open>Q_Lock2\<close> line 246, \<open>Q_Wait2\<close> and
  \<open>Q_Sleep2\<close> the second \<^verbatim>\<open>cv.wait\<close> (line 249), \<open>Q_Return\<close> the end of the function,
  where the destructor of the lock releases the mutex. \<open>Q_Done\<close>: all calls were made.
\<close>

datatype qt_pc =
  Q_Lock1 | Q_Wait1 | Q_Sleep1 | Q_Set | Q_Unlock | Q_Notify | Q_Lock2 | Q_Wait2 | Q_Sleep2
  | Q_Return | Q_Done

text \<open>
  \<^verbatim>\<open>IgnRenderer::Render\<close>: \<open>W_Lock\<close> is line 278, \<open>W_Wait\<close> and \<open>W_Sleep\<close> the
  \<^verbatim>\<open>cv.wait\<close> of \<^verbatim>\<open>WaitForQtThreadAndBlock\<close> (line 213), \<open>W_Set\<close> line 217, \<open>W_Render\<close> the
  frame itself (lines 281-326), \<open>W_Release\<close> line 223, \<open>W_Unlock\<close> line 224, \<open>W_Notify\<close>
  line 225, after which the worker loop starts the next call of \<^verbatim>\<open>Render\<close>.
\<close>

datatype worker_pc =
  W_Lock | W_Wait | W_Sleep | W_Set | W_Render | W_Release | W_Unlock | W_Notify

text \<open>
  \<^verbatim>\<open>Shutdown\<close>: \<open>G_Idle\<close> before the call, \<open>G_Lock\<close> line 260, \<open>G_Set\<close> line 262,
  \<open>G_Unlock\<close> line 264, \<open>G_Notify\<close> line 265, \<open>G_Done\<close> after it.
\<close>

datatype gui_pc = G_Idle | G_Lock | G_Set | G_Unlock | G_Notify | G_Done

text \<open>
  The shared object and the three threads. \<open>waiters\<close> is the set of threads asleep inside
  \<^verbatim>\<open>cv.wait\<close>; a thread that was notified has left the set and still has to take the mutex
  again. The last three fields are ghost counters: calls of \<^verbatim>\<open>WaitForWorkerThread\<close> that
  returned, frames rendered, and worker cycles whose \<^verbatim>\<open>ReleaseQtThreadFromBlock\<close> has
  released the mutex.
\<close>

record sync =
  renderStallState :: RenderStallState
  mutex :: "thread option"
  waiters :: "thread set"
  qpc :: qt_pc
  wpc :: worker_pc
  gpc :: gui_pc
  calls_done :: nat
  renders :: nat
  cycles :: nat

definition init_sync :: "nat \<Rightarrow> sync" where
  "init_sync N =
     \<lparr>renderStallState = QtCanProceed, mutex = None, waiters = {},
      qpc = (if N = 0 then Q_Done else Q_Lock1), wpc = W_Lock, gpc = G_Idle,
      calls_done = 0, renders = 0, cycles = 0\<rparr>"

text \<open>The predicates of the two kinds of \<^verbatim>\<open>cv.wait\<close> (lines 214-215 and 236-237).\<close>

definition worker_may_go :: "RenderStallState \<Rightarrow> bool" where
  "worker_may_go r = (r = WorkerCanProceed \<or> r = ShuttingDown)"

definition qt_may_go :: "RenderStallState \<Rightarrow> bool" where
  "qt_may_go r = (r = QtCanProceed \<or> r = ShuttingDown)"

text \<open>
  \<^verbatim>\<open>cv.notify_one()\<close>: nothing happens when no thread sleeps; otherwise one sleeping thread,
  any of them, is woken. The result is the list of the possible next states.
\<close>

definition notify_one :: "sync \<Rightarrow> sync list" where
  "notify_one s =
     (if waiters s = {} then [s]
      else map (\<lambda>t. s\<lparr>waiters := waiters s - {t}\<rparr>)
               (filter (\<lambda>t. t \<in> waiters s) [QtThread, WorkerThread, GuiThread]))"

text \<open>
  One statement of \<^verbatim>\<open>WaitForWorkerThread\<close>, the \<open>N\<close> calls running one after the other.
  The empty list means that the thread cannot move: the mutex is taken, or it sleeps.
\<close>

definition qt_succs :: "nat \<Rightarrow> sync \<Rightarrow> sync list" where
  "qt_succs N s =
     (case qpc s of
        Q_Lock1 \<Rightarrow> (if mutex s = None then [s\<lparr>mutex := Some QtThread, qpc := Q_Wait1\<rparr>] else [])
      | Q_Wait1 \<Rightarrow>
          (if qt_may_go (renderStallState s) then [s\<lparr>qpc := Q_Set\<rparr>]
           else [s\<lparr>mutex := None, waiters := insert QtThread (waiters s), qpc := Q_Sleep1\<rparr>])
      | Q_Sleep1 \<Rightarrow>
          (if QtThread \<notin> waiters s \<and> mutex s = None
           then [s\<lparr>mutex := Some QtThread, qpc := Q_Wait1\<rparr>] else [])
      | Q_Set \<Rightarrow> [s\<lparr>renderStallState := WorkerCanProceed, qpc := Q_Unlock\<rparr>]
      | Q_Unlock \<Rightarrow> [s\<lparr>mutex := None, qpc := Q_Notify\<rparr>]
      | Q_Notify \<Rightarrow> map (\<lambda>s'. s'\<lparr>qpc := Q_Lock2\<rparr>) (notify_one s)
      | Q_Lock2 \<Rightarrow> (if mutex s = None then [s\<lparr>mutex := Some QtThread, qpc := Q_Wait2\<rparr>] else [])
      | Q_Wait2 \<Rightarrow>
          (if qt_may_go (renderStallState s) then [s\<lparr>qpc := Q_Return\<rparr>]
           else [s\<lparr>mutex := None, waiters := insert QtThread (waiters s), qpc := Q_Sleep2\<rparr>])
      | Q_Sleep2 \<Rightarrow>
          (if QtThread \<notin> waiters s \<and> mutex s = None
           then [s\<lparr>mutex := Some QtThread, qpc := Q_Wait2\<rparr>] else [])
      | Q_Return \<Rightarrow>
          [s\<lparr>mutex := None, calls_done := calls_done s + 1,
             qpc := (if calls_done s + 1 < N then Q_Lock1 else Q_Done)\<rparr>]
      | Q_Done \<Rightarrow> [])"

text \<open>
  One statement of the worker loop: \<^verbatim>\<open>Render\<close> called again and again. Line 217 assigns
  \<^verbatim>\<open>WorkerIsProceeding\<close> whatever state ended the wait.
\<close>

definition worker_succs :: "sync \<Rightarrow> sync list" where
  "worker_succs s =
     (case wpc s of
        W_Lock \<Rightarrow> (if mutex s = None then [s\<lparr>mutex := Some WorkerThread, wpc := W_Wait\<rparr>] else [])
      | W_Wait \<Rightarrow>
          (if worker_may_go (renderStallState s) then [s\<lparr>wpc := W_Set\<rparr>]
           else [s\<lparr>mutex := None, waiters := insert WorkerThread (waiters s), wpc := W_Sleep\<rparr>])
      | W_Sleep \<Rightarrow>
          (if WorkerThread \<notin> waiters s \<and> mutex s = None
           then [s\<lparr>mutex := Some WorkerThread, wpc := W_Wait\<rparr>] else [])
      | W_Set \<Rightarrow> [s\<lparr>renderStallState := WorkerIsProceeding, wpc := W_Render\<rparr>]
      | W_Render \<Rightarrow> [s\<lparr>renders := renders s + 1, wpc := W_Release\<rparr>]
      | W_Release \<Rightarrow> [s\<lparr>renderStallState := QtCanProceed, wpc := W_Unlock\<rparr>]
      | W_Unlock \<Rightarrow> [s\<lparr>mutex := None, cycles := cycles s + 1, wpc := W_Notify\<rparr>]
      | W_Notify \<Rightarrow> map (\<lambda>s'. s'\<lparr>wpc := W_Lock\<rparr>) (notify_one s))"

text \<open>One statement of \<^verbatim>\<open>Shutdown\<close>, once it has been called.\<close>

definition gui_succs :: "sync \<Rightarrow> sync list" where
  "gui_succs s =
     (case gpc s of
        G_Idle \<Rightarrow> []
      | G_Lock \<Rightarrow> (if mutex s = None then [s\<lparr>mutex := Some GuiThread, gpc := G_Set\<rparr>] else [])
      | G_Set \<Rightarrow> [s\<lparr>renderStallState := ShuttingDown, gpc := G_Unlock\<rparr>]
      | G_Unlock \<Rightarrow> [s\<lparr>mutex := None, gpc := G_Notify\<rparr>]
      | G_Notify \<Rightarrow> map (\<lambda>s'. s'\<lparr>gpc := G_Done\<rparr>) (notify_one s)
      | G_Done \<Rightarrow> [])"

text \<open>
  What can happen next: a thread executes its statement; a sleeping thread wakes with no
  notification (C++ allows it); the GUI thread calls \<^verbatim>\<open>Shutdown\<close>.
\<close>

datatype action = Run thread | Spurious thread | CallShutdown

fun thread_succs :: "nat \<Rightarrow> thread \<Rightarrow> sync \<Rightarrow> sync list" where
  "thread_succs N QtThread s = qt_succs N s"
| "thread_succs N WorkerThread s = worker_succs s"
| "thread_succs N GuiThread s = gui_succs s"

fun succs :: "nat \<Rightarrow> action \<Rightarrow> sync \<Rightarrow> sync list" where
  "succs N (Run t) s = thread_succs N t s"
| "succs N (Spurious t) s = (if t \<in> waiters s then [s\<lparr>waiters := waiters s - {t}\<rparr>] else [])"
| "succs N CallShutdown s = (if gpc s = G_Idle then [s\<lparr>gpc := G_Lock\<rparr>] else [])"

inductive reachable :: "nat \<Rightarrow> sync \<Rightarrow> bool" for N :: nat where
  reachable_init: "reachable N (init_sync N)"
| reachable_step: "reachable N s \<Longrightarrow> s' \<in> set (succs N a s) \<Longrightarrow> reachable N s'"

text \<open>A schedule, run from a state; of several possible next states the first is taken.\<close>

fun exec :: "nat \<Rightarrow> action list \<Rightarrow> sync \<Rightarrow> sync option" where
  "exec N [] s = Some s"
| "exec N (a # as) s = (case succs N a s of [] \<Rightarrow> None | s' # _ \<Rightarrow> exec N as s')"

text \<open>A thread is blocked when it has a statement left and cannot execute it.\<close>

definition blocked :: "nat \<Rightarrow> thread \<Rightarrow> sync \<Rightarrow> bool" where
  "blocked N t s =
     (thread_succs N t s = [] \<and>
      (case t of QtThread \<Rightarrow> qpc s \<noteq> Q_Done
               | WorkerThread \<Rightarrow> True
               | GuiThread \<Rightarrow> gpc s \<noteq> G_Idle \<and> gpc s \<noteq> G_Done))"


subsection \<open>Invariants of the hand-off\<close>

text \<open>
  Sets of program counters, as predicates: the statements at which a thread holds the mutex,
  the statements of the worker between lines 217 and 223, the second half of
  \<^verbatim>\<open>WaitForWorkerThread\<close>, and the statements after which a \<^verbatim>\<open>notify_one\<close> is still to
  come. \<open>frame_counted\<close> is 1 while a frame was rendered and its cycle not yet counted.
\<close>

fun qt_holds :: "qt_pc \<Rightarrow> bool" where
  "qt_holds Q_Wait1 = True" | "qt_holds Q_Set = True" | "qt_holds Q_Unlock = True"
| "qt_holds Q_Wait2 = True" | "qt_holds Q_Return = True" | "qt_holds _ = False"

fun worker_holds :: "worker_pc \<Rightarrow> bool" where
  "worker_holds W_Wait = True" | "worker_holds W_Set = True" | "worker_holds W_Render = True"
| "worker_holds W_Release = True" | "worker_holds W_Unlock = True" | "worker_holds _ = False"

fun gui_holds :: "gui_pc \<Rightarrow> bool" where
  "gui_holds G_Set = True" | "gui_holds G_Unlock = True" | "gui_holds _ = False"

fun in_frame :: "worker_pc \<Rightarrow> bool" where
  "in_frame W_Render = True" | "in_frame W_Release = True" | "in_frame _ = False"

fun qt_handed_over :: "qt_pc \<Rightarrow> bool" where
  "qt_handed_over Q_Unlock = True" | "qt_handed_over Q_Notify = True"
| "qt_handed_over Q_Lock2 = True" | "qt_handed_over Q_Wait2 = True"
| "qt_handed_over Q_Sleep2 = True" | "qt_handed_over _ = False"

fun qt_will_notify :: "qt_pc \<Rightarrow> bool" where
  "qt_will_notify Q_Unlock = True" | "qt_will_notify Q_Notify = True" | "qt_will_notify _ = False"

fun worker_will_notify :: "worker_pc \<Rightarrow> bool" where
  "worker_will_notify W_Unlock = True" | "worker_will_notify W_Notify = True"
| "worker_will_notify _ = False"

fun gui_will_notify :: "gui_pc \<Rightarrow> bool" where
  "gui_will_notify G_Unlock = True" | "gui_will_notify G_Notify = True"
| "gui_will_notify _ = False"

fun frame_counted :: "worker_pc \<Rightarrow> nat" where
  "frame_counted W_Release = 1" | "frame_counted W_Unlock = 1" | "frame_counted _ = 0"

text \<open>
  The invariant of all reachable states. A thread owns the mutex exactly at the statements
  listed above. The state is \<^verbatim>\<open>WorkerIsProceeding\<close> exactly while the worker is between lines
  217 and 223, and \<^verbatim>\<open>WorkerCanProceed\<close> only during the second half of a call of
  \<^verbatim>\<open>WaitForWorkerThread\<close>. The Qt thread never sleeps in its first wait. The two threads never
  sleep at the same time, and a thread sleeps only while its predicate is false or the
  \<^verbatim>\<open>notify_one\<close> of whoever made it true is still to come.
\<close>

definition sync_inv :: "sync \<Rightarrow> bool" where
  "sync_inv s =
     ((mutex s = Some QtThread) = qt_holds (qpc s) \<and>
      (mutex s = Some WorkerThread) = worker_holds (wpc s) \<and>
      (mutex s = Some GuiThread) = gui_holds (gpc s) \<and>
      (renderStallState s = WorkerIsProceeding) = in_frame (wpc s) \<and>
      (renderStallState s = WorkerCanProceed \<longrightarrow> qt_handed_over (qpc s)) \<and>
      qpc s \<noteq> Q_Sleep1 \<and>
      GuiThread \<notin> waiters s \<and>
      \<not> (QtThread \<in> waiters s \<and> WorkerThread \<in> waiters s) \<and>
      (QtThread \<in> waiters s \<longrightarrow>
         qpc s = Q_Sleep2 \<and>
         (renderStallState s = WorkerCanProceed \<or> renderStallState s = WorkerIsProceeding \<or>
          renderStallState s = QtCanProceed \<and> worker_will_notify (wpc s) \<or>
          renderStallState s = ShuttingDown \<and> gui_will_notify (gpc s))) \<and>
      (WorkerThread \<in> waiters s \<longrightarrow>
         wpc s = W_Sleep \<and>
         (renderStallState s = QtCanProceed \<or>
          renderStallState s = WorkerCanProceed \<and> qt_will_notify (qpc s) \<or>
          renderStallState s = ShuttingDown \<and> gui_will_notify (gpc s))) \<and>
      renders s = cycles s + frame_counted (wpc s))"

text \<open>
  What holds in addition as long as \<^verbatim>\<open>Shutdown\<close> was not called: the worker is inside its
  critical section only during the second half of a call of \<^verbatim>\<open>WaitForWorkerThread\<close>, and
  the number of completed cycles is the number of returned calls, plus one once the cycle
  of the current call is complete.
\<close>

definition quiet_inv :: "sync \<Rightarrow> bool" where
  "quiet_inv s =
     (gpc s = G_Idle \<longrightarrow>
        renderStallState s \<noteq> ShuttingDown \<and>
        (wpc s = W_Set \<longrightarrow> renderStallState s = WorkerCanProceed) \<and>
        (wpc s = W_Unlock \<longrightarrow> renderStallState s = QtCanProceed) \<and>
        (worker_holds (wpc s) \<and> wpc s \<noteq> W_Wait \<longrightarrow> qt_handed_over (qpc s)) \<and>
        cycles s = calls_done s +
          (if qpc s = Q_Return \<or>
              qt_handed_over (qpc s) \<and> renderStallState s = QtCanProceed \<and> wpc s \<noteq> W_Unlock
           then 1 else 0))"

subsection \<open>Schedules and states for the examples\<close>

text \<open>
  The first call of \<^verbatim>\<open>WaitForWorkerThread\<close> up to its return: the Qt thread hands over, the
  worker runs one cycle, the Qt thread finds \<^verbatim>\<open>QtCanProceed\<close>.
\<close>

definition sched_first_call :: "action list" where
  "sched_first_call =
     [Run QtThread, Run QtThread, Run QtThread, Run QtThread, Run QtThread,
      Run WorkerThread, Run WorkerThread, Run WorkerThread, Run WorkerThread,
      Run WorkerThread, Run WorkerThread, Run WorkerThread,
      Run QtThread, Run QtThread]"

definition after_first_call :: sync where
  "after_first_call =
     \<lparr>renderStallState = QtCanProceed, mutex = Some QtThread, waiters = {},
      qpc = Q_Return, wpc = W_Lock, gpc = G_Idle, calls_done = 0, renders = 1, cycles = 1\<rparr>"

text \<open>
  \<^verbatim>\<open>Shutdown\<close> while the worker sleeps in \<^verbatim>\<open>WaitForQtThreadAndBlock\<close>: the worker locks and
  goes to sleep, \<^verbatim>\<open>Shutdown\<close> is called and runs up to its \<^verbatim>\<open>notify_one\<close>; then the
  notification, and four statements of the worker.
\<close>

definition blocked_at_shutdown :: sync where
  "blocked_at_shutdown =
     \<lparr>renderStallState = ShuttingDown, mutex = None, waiters = {WorkerThread},
      qpc = Q_Lock1, wpc = W_Sleep, gpc = G_Notify, calls_done = 0, renders = 0, cycles = 0\<rparr>"

definition sched_shutdown_while_blocked :: "action list" where
  "sched_shutdown_while_blocked =
     [Run WorkerThread, Run WorkerThread, CallShutdown,
      Run GuiThread, Run GuiThread, Run GuiThread]"

definition sched_wake_and_go :: "action list" where
  "sched_wake_and_go =
     [Run GuiThread, Run WorkerThread, Run WorkerThread, Run WorkerThread, Run WorkerThread]"

text \<open>
  \<^verbatim>\<open>Shutdown\<close> called in the middle of a worker cycle: the Qt thread hands over, the worker
  gets as far as the frame, \<^verbatim>\<open>Shutdown\<close> is called. Then the worker finishes the cycle,
  \<^verbatim>\<open>Shutdown\<close> runs to its end, and the worker starts its next call of \<^verbatim>\<open>Render\<close>.
\<close>

definition sched_shutdown_mid_cycle :: "action list" where
  "sched_shutdown_mid_cycle =
     [Run QtThread, Run QtThread, Run QtThread, Run QtThread, Run QtThread,
      Run WorkerThread, Run WorkerThread, Run WorkerThread, CallShutdown]"

definition mid_cycle_at_shutdown :: sync where
  "mid_cycle_at_shutdown =
     \<lparr>renderStallState = WorkerIsProceeding, mutex = Some WorkerThread, waiters = {},
      qpc = Q_Lock2, wpc = W_Render, gpc = G_Lock, calls_done = 0, renders = 0, cycles = 0\<rparr>"

definition sched_finish_then_shutdown :: "action list" where
  "sched_finish_then_shutdown =
     [Run WorkerThread, Run WorkerThread, Run WorkerThread, Run WorkerThread,
      Run GuiThread, Run GuiThread, Run GuiThread, Run GuiThread, Run WorkerThread]"

definition next_block_call :: sync where
  "next_block_call =
     \<lparr>renderStallState = ShuttingDown, mutex = Some WorkerThread, waiters = {},
      qpc = Q_Lock2, wpc = W_Wait, gpc = G_Done, calls_done = 0, renders = 1, cycles = 1\<rparr>"

definition sched_three_worker_steps :: "action list" where
  "sched_three_worker_steps = [Run WorkerThread, Run WorkerThread, Run WorkerThread]"

text \<open>The statements the worker has left in its cycle, from the frame or from line 223.\<close>

definition finish_cycle :: "worker_pc \<Rightarrow> action list" where
  "finish_cycle w =
     (if w = W_Render then [Run WorkerThread, Run WorkerThread, Run WorkerThread]
      else [Run WorkerThread, Run WorkerThread])"

section \<open>IgnRenderer: pending input and its dispatch\<close>

text \<open>
  The classes \<^verbatim>\<open>MouseEvent\<close> and \<^verbatim>\<open>KeyEvent\<close> belong to the ignition-common library, which
  is not part of the repository. The enumerators below are the ones \<^verbatim>\<open>minimal_scene.cpp\<close>
  names; every further enumerator of the library falls under the constructor \<open>Other...\<close>.
  The enumerators of \<^verbatim>\<open>KeyEvent\<close> carry the prefix \<open>Key_\<close>, since \<^verbatim>\<open>MouseEvent\<close> has
  \<^verbatim>\<open>PRESS\<close> and \<^verbatim>\<open>RELEASE\<close> too.
\<close>

type_synonym Vector2i = "int \<times> int"
type_synonym Vector3d = "real \<times> real \<times> real"

datatype MouseButton = LEFT | RIGHT | OtherButton nat

datatype MouseEventType = MOVE | PRESS | RELEASE | SCROLL | OtherMouseType nat

datatype KeyEventType = Key_NO_EVENT | Key_PRESS | Key_RELEASE | OtherKeyType nat

record MouseEvent =
  ePos :: Vector2i
  ePressPos :: Vector2i
  eButton :: MouseButton
  eType :: MouseEventType
  eDragging :: bool
  eControl :: bool
  eShift :: bool
  eAlt :: bool

record KeyEvent =
  kKey :: int
  kType :: KeyEventType
  kControl :: bool
  kShift :: bool
  kAlt :: bool

text \<open>
  A \<^verbatim>\<open>double\<close> that need not be finite. The normalised image coordinates of
  \<^verbatim>\<open>ScreenToScene\<close> are quotients by the image width and height of the camera, and the
  division of a \<^verbatim>\<open>double\<close> by 0.0 yields an infinity or, for 0.0 / 0.0, a NaN.
\<close>

datatype coordinate = Finite real | PlusInfinity | MinusInfinity | NotANumber

text \<open>
  \<^verbatim>\<open>RayQueryResult\<close> of ign-rendering: \<open>intersects\<close> is its conversion to \<^verbatim>\<open>bool\<close>, tested
  by \<^verbatim>\<open>if (result)\<close> at line 692.
\<close>

record RayQueryResult =
  intersects :: bool
  point :: Vector3d

text \<open>
  The camera (type \<open>'c\<close>) and the ray query (type \<open>'q\<close>) are objects of the rendering
  engine. The member functions that \<^verbatim>\<open>minimal_scene.cpp\<close> calls on them are parameters of
  the model, collected in one record. The points and directions of the engine are triples
  of real numbers here, for its \<^verbatim>\<open>double\<close>s.
\<close>

record ('c, 'q) Engine =
  ImageWidth :: "'c \<Rightarrow> nat"
  ImageHeight :: "'c \<Rightarrow> nat"
  SetImageWidth :: "int \<Rightarrow> 'c \<Rightarrow> 'c"
  SetImageHeight :: "int \<Rightarrow> 'c \<Rightarrow> 'c"
  SetAspectRatio :: "real \<Rightarrow> 'c \<Rightarrow> 'c"
  PreRender :: "'c \<Rightarrow> 'c"
  RenderTextureGLId :: "'c \<Rightarrow> 32 word"
  Update :: "'c \<Rightarrow> 'c"
  SetFromCamera :: "'c \<Rightarrow> coordinate \<times> coordinate \<Rightarrow> 'q \<Rightarrow> 'q"
  ClosestPoint :: "'q \<Rightarrow> RayQueryResult"
  Origin :: "'q \<Rightarrow> Vector3d"
  Direction :: "'q \<Rightarrow> Vector3d"

text \<open>\<^verbatim>\<open>IgnRenderer::Implementation\<close> (lines 60-97).\<close>

record ('c, 'q) Implementation =
  mouseDirty :: bool
  hoverDirty :: bool
  dropDirty :: bool
  mouseEvent :: MouseEvent
  keyEvent :: KeyEvent
  camera :: 'c
  mouseHoverPos :: Vector2i
  mouseDropPos :: Vector2i
  dropText :: string
  rayQuery :: 'q

text \<open>
  The events handed to \<^verbatim>\<open>sendEvent\<close>, each with what its constructor receives. The last two
  are sent by \<^verbatim>\<open>Render\<close>.
\<close>

datatype event =
  DropOnScene string Vector2i
  | HoverToScene Vector3d
  | HoverOnScene MouseEvent
  | DragOnScene MouseEvent
  | LeftClickToScene Vector3d
  | LeftClickOnScene MouseEvent
  | RightClickToScene Vector3d
  | RightClickOnScene MouseEvent
  | MousePressOnScene MouseEvent
  | ScrollOnScene MouseEvent
  | KeyReleaseOnScene KeyEvent
  | KeyPressOnScene KeyEvent
  | PreRenderEvent
  | RenderEvent

definition vec_add :: "Vector3d \<Rightarrow> Vector3d \<Rightarrow> Vector3d" where
  "vec_add a b =
     (case a of (ax, ay, az) \<Rightarrow> case b of (bx, by, bz) \<Rightarrow> (ax + bx, ay + by, az + bz))"

definition vec_scale :: "Vector3d \<Rightarrow> real \<Rightarrow> Vector3d" where
  "vec_scale a k = (case a of (ax, ay, az) \<Rightarrow> (ax * k, ay * k, az * k))"

text \<open>
  The normalised image coordinates of lines 681-685, for an image of \<open>w\<close> by \<open>h\<close> pixels:
  \<^verbatim>\<open>nx = 2.0 * x / width - 1.0\<close> and \<^verbatim>\<open>ny = 1.0 - 2.0 * y / height\<close>. The width and height
  come from \<^verbatim>\<open>unsigned int\<close>s. When one of them is 0, the quotient is plus or minus infinity
  with the sign of the numerator, or a NaN when the numerator is 0 too, and the addition
  or subtraction keeps that: \<^verbatim>\<open>ny\<close> is then minus infinity for a positive \<^verbatim>\<open>y\<close>.
\<close>

definition normalized :: "nat \<Rightarrow> nat \<Rightarrow> Vector2i \<Rightarrow> coordinate \<times> coordinate" where
  "normalized w h p =
     (let width = real w; height = real h;
          x = real_of_int (fst p); y = real_of_int (snd p);
          nx = (if width \<noteq> 0 then Finite (2 * x / width - 1)
                else if 0 < x then PlusInfinity
                else if x < 0 then MinusInfinity
                else NotANumber);
          ny = (if height \<noteq> 0 then Finite (1 - 2 * y / height)
                else if 0 < y then MinusInfinity
                else if y < 0 then PlusInfinity
                else NotANumber)
      in (nx, ny))"

text \<open>
  \<^verbatim>\<open>IgnRenderer::ScreenToScene\<close> (lines 672-698). The member function is \<^verbatim>\<open>const\<close>, but
  \<^verbatim>\<open>SetFromCamera\<close> changes the ray query it points to: the result is the point and the ray
  query.
\<close>

definition ScreenToScene ::
  "('c, 'q) Engine \<Rightarrow> ('c, 'q) Implementation \<Rightarrow> Vector2i \<Rightarrow> Vector3d \<times> 'q" where
  "ScreenToScene api d screenPos =
     (let n = normalized (ImageWidth api (camera d)) (ImageHeight api (camera d)) screenPos;
          q = SetFromCamera api (camera d) n (rayQuery d);
          result = ClosestPoint api q
      in if intersects result then (point result, q)
         else (vec_add (Origin api q) (vec_scale (Direction api q) 10), q))"

text \<open>
  The nine \<^verbatim>\<open>Broadcast...\<close> functions (lines 371-524). Each returns the private data as it
  leaves them and the events it sent, in order.
\<close>

definition BroadcastDrop ::
  "('c, 'q) Implementation \<Rightarrow> ('c, 'q) Implementation \<times> event list" where
  "BroadcastDrop d =
     (if \<not> dropDirty d then (d, [])
      else (d\<lparr>dropDirty := False\<rparr>, [DropOnScene (dropText d) (mouseDropPos d)]))"

definition BroadcastHoverPos ::
  "('c, 'q) Engine \<Rightarrow> ('c, 'q) Implementation \<Rightarrow> ('c, 'q) Implementation \<times> event list" where
  "BroadcastHoverPos api d =
     (if \<not> hoverDirty d then (d, [])
      else
        let (pos, q) = ScreenToScene api d (mouseHoverPos d);
            hoverMouseEvent = (mouseEvent d)\<lparr>ePos := mouseHoverPos d, eDragging := False,
                                             eType := MOVE\<rparr>
        in (d\<lparr>rayQuery := q, hoverDirty := False\<rparr>,
            [HoverToScene pos, HoverOnScene hoverMouseEvent]))"

definition BroadcastDrag ::
  "('c, 'q) Implementation \<Rightarrow> ('c, 'q) Implementation \<times> event list" where
  "BroadcastDrag d =
     (if \<not> mouseDirty d then (d, [])
      else if \<not> eDragging (mouseEvent d) then (d, [])
      else (d\<lparr>mouseDirty := False\<rparr>, [DragOnScene (mouseEvent d)]))"

definition BroadcastLeftClick ::
  "('c, 'q) Engine \<Rightarrow> ('c, 'q) Implementation \<Rightarrow> ('c, 'q) Implementation \<times> event list" where
  "BroadcastLeftClick api d =
     (if \<not> mouseDirty d then (d, [])
      else if eButton (mouseEvent d) \<noteq> LEFT \<or> eType (mouseEvent d) \<noteq> RELEASE then (d, [])
      else
        let (pos, q) = ScreenToScene api d (ePos (mouseEvent d))
        in (d\<lparr>rayQuery := q, mouseDirty := False\<rparr>,
            [LeftClickToScene pos, LeftClickOnScene (mouseEvent d)]))"

definition BroadcastRightClick ::
  "('c, 'q) Engine \<Rightarrow> ('c, 'q) Implementation \<Rightarrow> ('c, 'q) Implementation \<times> event list" where
  "BroadcastRightClick api d =
     (if \<not> mouseDirty d then (d, [])
      else if eButton (mouseEvent d) \<noteq> RIGHT \<or> eType (mouseEvent d) \<noteq> RELEASE then (d, [])
      else
        let (pos, q) = ScreenToScene api d (ePos (mouseEvent d))
        in (d\<lparr>rayQuery := q, mouseDirty := False\<rparr>,
            [RightClickToScene pos, RightClickOnScene (mouseEvent d)]))"

definition BroadcastMousePress ::
  "('c, 'q) Implementation \<Rightarrow> ('c, 'q) Implementation \<times> event list" where
  "BroadcastMousePress d =
     (if \<not> mouseDirty d then (d, [])
      else if eType (mouseEvent d) \<noteq> PRESS then (d, [])
      else (d\<lparr>mouseDirty := False\<rparr>, [MousePressOnScene (mouseEvent d)]))"

definition BroadcastScroll ::
  "('c, 'q) Implementation \<Rightarrow> ('c, 'q) Implementation \<times> event list" where
  "BroadcastScroll d =
     (if \<not> mouseDirty d then (d, [])
      else if eType (mouseEvent d) \<noteq> SCROLL then (d, [])
      else (d\<lparr>mouseDirty := False\<rparr>, [ScrollOnScene (mouseEvent d)]))"

definition BroadcastKeyRelease ::
  "('c, 'q) Implementation \<Rightarrow> ('c, 'q) Implementation \<times> event list" where
  "BroadcastKeyRelease d =
     (if kType (keyEvent d) \<noteq> Key_RELEASE then (d, [])
      else (d\<lparr>keyEvent := (keyEvent d)\<lparr>kType := Key_NO_EVENT\<rparr>\<rparr>,
            [KeyReleaseOnScene (keyEvent d)]))"

definition BroadcastKeyPress ::
  "('c, 'q) Implementation \<Rightarrow> ('c, 'q) Implementation \<times> event list" where
  "BroadcastKeyPress d =
     (if kType (keyEvent d) \<noteq> Key_PRESS then (d, [])
      else (d\<lparr>keyEvent := (keyEvent d)\<lparr>kType := Key_NO_EVENT\<rparr>\<rparr>,
            [KeyPressOnScene (keyEvent d)]))"

text \<open>\<^verbatim>\<open>IgnRenderer::HandleMouseEvent\<close> (lines 331-344), in the order of the source.\<close>

definition HandleMouseEvent ::
  "('c, 'q) Engine \<Rightarrow> ('c, 'q) Implementation \<Rightarrow> ('c, 'q) Implementation \<times> event list" where
  "HandleMouseEvent api d =
     (let (d1, e1) = BroadcastHoverPos api d;
          (d2, e2) = BroadcastDrag d1;
          (d3, e3) = BroadcastMousePress d2;
          (d4, e4) = BroadcastLeftClick api d3;
          (d5, e5) = BroadcastRightClick api d4;
          (d6, e6) = BroadcastScroll d5;
          (d7, e7) = BroadcastKeyPress d6;
          (d8, e8) = BroadcastKeyRelease d7;
          (d9, e9) = BroadcastDrop d8
      in (d9\<lparr>mouseDirty := False\<rparr>, e1 @ e2 @ e3 @ e4 @ e5 @ e6 @ e7 @ e8 @ e9))"

text \<open>
  The writers of the pending input, called from the GUI thread: \<^verbatim>\<open>HandleKeyPress\<close> and
  \<^verbatim>\<open>HandleKeyRelease\<close> (lines 347-368, the same body), \<^verbatim>\<open>NewHoverEvent\<close>,
  \<^verbatim>\<open>NewDropEvent\<close> and \<^verbatim>\<open>NewMouseEvent\<close> (lines 646-669).
\<close>

definition HandleKeyPress ::
  "KeyEvent \<Rightarrow> ('c, 'q) Implementation \<Rightarrow> ('c, 'q) Implementation" where
  "HandleKeyPress e d =
     d\<lparr>keyEvent := e,
       mouseEvent := (mouseEvent d)\<lparr>eControl := kControl e, eShift := kShift e,
                                    eAlt := kAlt e\<rparr>\<rparr>"

definition HandleKeyRelease ::
  "KeyEvent \<Rightarrow> ('c, 'q) Implementation \<Rightarrow> ('c, 'q) Implementation" where
  "HandleKeyRelease e d =
     d\<lparr>keyEvent := e,
       mouseEvent := (mouseEvent d)\<lparr>eControl := kControl e, eShift := kShift e,
                                    eAlt := kAlt e\<rparr>\<rparr>"

definition NewHoverEvent ::
  "Vector2i \<Rightarrow> ('c, 'q) Implementation \<Rightarrow> ('c, 'q) Implementation" where
  "NewHoverEvent hoverPos d = d\<lparr>mouseHoverPos := hoverPos, hoverDirty := True\<rparr>"

definition NewDropEvent ::
  "string \<Rightarrow> Vector2i \<Rightarrow> ('c, 'q) Implementation \<Rightarrow> ('c, 'q) Implementation" where
  "NewDropEvent text dropPos d =
     d\<lparr>dropText := text, mouseDropPos := dropPos, dropDirty := True\<rparr>"

definition NewMouseEvent ::
  "MouseEvent \<Rightarrow> ('c, 'q) Implementation \<Rightarrow> ('c, 'q) Implementation" where
  "NewMouseEvent e d = d\<lparr>mouseEvent := e, mouseDirty := True\<rparr>"

text \<open>
  The input categories. Every dispatch path sends exactly one event named \<^verbatim>\<open>...OnScene\<close>;
  the hover and click paths send a \<^verbatim>\<open>...ToScene\<close> event with the projected point before it.
\<close>

datatype category =
  Hover | Drag | LeftClick | RightClick | GenericPress | Scroll | KeyPress | KeyRelease | Drop

fun dispatch_of :: "event \<Rightarrow> category option" where
  "dispatch_of (HoverOnScene _) = Some Hover"
| "dispatch_of (DragOnScene _) = Some Drag"
| "dispatch_of (LeftClickOnScene _) = Some LeftClick"
| "dispatch_of (RightClickOnScene _) = Some RightClick"
| "dispatch_of (MousePressOnScene _) = Some GenericPress"
| "dispatch_of (ScrollOnScene _) = Some Scroll"
| "dispatch_of (KeyPressOnScene _) = Some KeyPress"
| "dispatch_of (KeyReleaseOnScene _) = Some KeyRelease"
| "dispatch_of (DropOnScene _ _) = Some Drop"
| "dispatch_of _ = None"

definition dispatched :: "event list \<Rightarrow> category list" where
  "dispatched es = List.map_filter dispatch_of es"

fun is_mouse :: "category \<Rightarrow> bool" where
  "is_mouse Drag = True"
| "is_mouse GenericPress = True"
| "is_mouse LeftClick = True"
| "is_mouse RightClick = True"
| "is_mouse Scroll = True"
| "is_mouse _ = False"

fun is_key :: "category \<Rightarrow> bool" where
  "is_key KeyPress = True"
| "is_key KeyRelease = True"
| "is_key _ = False"

text \<open>
  What the chain of the five mouse functions and the pair of key functions dispatch for a
  given stored event, read off the order of the calls in \<^verbatim>\<open>HandleMouseEvent\<close>: the first
  function whose test the event passes clears \<^verbatim>\<open>mouseDirty\<close>, respectively resets the type
  of the key event, and the later ones return at once.
\<close>

definition mouse_path :: "MouseEvent \<Rightarrow> category list" where
  "mouse_path e =
     (if eDragging e then [Drag]
      else if eType e = PRESS then [GenericPress]
      else if eButton e = LEFT \<and> eType e = RELEASE then [LeftClick]
      else if eButton e = RIGHT \<and> eType e = RELEASE then [RightClick]
      else if eType e = SCROLL then [Scroll]
      else [])"

definition key_path :: "KeyEvent \<Rightarrow> category list" where
  "key_path k =
     (if kType k = Key_PRESS then [KeyPress]
      else if kType k = Key_RELEASE then [KeyRelease]
      else [])"

section \<open>IgnRenderer and RenderThread: one frame\<close>

type_synonym QSize = "int \<times> int"

text \<open>
  The public members of \<^verbatim>\<open>IgnRenderer\<close> that the frame uses, and its private data.
  \<^verbatim>\<open>textureId\<close> is an \<^verbatim>\<open>unsigned int\<close>, a \<^verbatim>\<open>QSize\<close> holds two \<^verbatim>\<open>int\<close>s.
\<close>

record ('c, 'q) IgnRenderer =
  initialized :: bool
  textureDirty :: bool
  textureSize :: QSize
  textureId :: "32 word"
  dataPtr :: "('c, 'q) Implementation"

datatype frame_error = DivisionByZero | DivisionOverflow

text \<open>
  The resize block of \<^verbatim>\<open>Render\<close> (lines 281-301). Both operands of the division at line
  293 are 32-bit \<^verbatim>\<open>int\<close>s: the quotient is truncated, a zero height is a division by zero,
  and the quotient of the least \<^verbatim>\<open>int\<close> by -1 does not fit in an \<^verbatim>\<open>int\<close>.
\<close>

definition resize_block ::
  "('c, 'q) Engine \<Rightarrow> ('c, 'q) IgnRenderer \<Rightarrow> frame_error + ('c, 'q) IgnRenderer" where
  "resize_block api r =
     (if \<not> textureDirty r then Inr r
      else
        let w = fst (textureSize r); h = snd (textureSize r)
        in if h = 0 then Inl DivisionByZero
           else if w = - 2147483648 \<and> h = - 1 then Inl DivisionOverflow
           else
             let c1 = SetImageWidth api w (camera (dataPtr r));
                 c2 = SetImageHeight api h c1;
                 c3 = SetAspectRatio api (real_of_int (w sdiv h)) c2;
                 c4 = PreRender api c3
             in Inr (r\<lparr>dataPtr := (dataPtr r)\<lparr>camera := c4\<rparr>, textureDirty := False\<rparr>))"

text \<open>
  \<^verbatim>\<open>IgnRenderer::Render\<close> between \<^verbatim>\<open>WaitForQtThreadAndBlock\<close> and
  \<^verbatim>\<open>ReleaseQtThreadFromBlock\<close> (lines 281-326): the statement \<open>W_Render\<close> of the worker
  above. \<open>app\<close> tells whether \<^verbatim>\<open>getApp()\<close> is non-null at lines 308 and 320.
\<close>

definition Render ::
  "('c, 'q) Engine \<Rightarrow> bool \<Rightarrow> ('c, 'q) IgnRenderer \<Rightarrow>
     frame_error + (('c, 'q) IgnRenderer \<times> event list)" where
  "Render api app r =
     (case resize_block api r of
        Inl e \<Rightarrow> Inl e
      | Inr r1 \<Rightarrow>
          let r2 = r1\<lparr>textureId := RenderTextureGLId api (camera (dataPtr r1))\<rparr>;
              (d3, input_events) = HandleMouseEvent api (dataPtr r2);
              pre = (if app then [PreRenderEvent] else []);
              d4 = d3\<lparr>camera := Update api (camera d3)\<rparr>;
              post = (if app then [RenderEvent] else [])
          in Inr (r2\<lparr>dataPtr := d4\<rparr>, input_events @ pre @ post))"

text \<open>
  What \<^verbatim>\<open>IgnRenderer::Initialize\<close> (lines 527-622) gets from the engine: whether the engine
  of the configured name exists, whether the grid is wanted, whether the scene already has
  the grid visual, whether \<^verbatim>\<open>CreateGrid\<close> succeeds, and the camera and the ray query that
  the scene creates; \<open>ConfigureCamera\<close> stands for the setters of lines 604-608 and
  \<open>SetAntiAliasingAndHFOV\<close> for lines 611-612.
\<close>

record ('c, 'q) Scene =
  engine_supported :: bool
  gridEnable :: bool
  grid_visual_exists :: bool
  grid_created :: bool
  CreateCamera :: 'c
  ConfigureCamera :: "'c \<Rightarrow> 'c"
  SetAntiAliasingAndHFOV :: "'c \<Rightarrow> 'c"
  CreateRayQuery :: "'c \<Rightarrow> 'q"

definition Initialize ::
  "('c, 'q) Engine \<Rightarrow> ('c, 'q) Scene \<Rightarrow> ('c, 'q) IgnRenderer \<Rightarrow> ('c, 'q) IgnRenderer" where
  "Initialize api sc r =
     (if initialized r then r
      else if \<not> engine_supported sc then r
      else if gridEnable sc \<and> \<not> grid_visual_exists sc \<and> \<not> grid_created sc then r
      else
        let c1 = ConfigureCamera sc (CreateCamera sc);
            c2 = SetImageWidth api (fst (textureSize r)) c1;
            c3 = SetImageHeight api (snd (textureSize r)) c2;
            c4 = PreRender api (SetAntiAliasingAndHFOV sc c3)
        in r\<lparr>dataPtr := (dataPtr r)\<lparr>camera := c4, rayQuery := CreateRayQuery sc c4\<rparr>,
             textureId := RenderTextureGLId api c4,
             initialized := True\<rparr>)"

text \<open>
  \<^verbatim>\<open>RenderThread::RenderNext\<close> (lines 708-728). The second component is what the signal
  \<^verbatim>\<open>TextureReady\<close> carries, \<open>None\<close> when the function returns without emitting it.
\<close>

definition RenderNext ::
  "('c, 'q) Engine \<Rightarrow> ('c, 'q) Scene \<Rightarrow> bool \<Rightarrow> ('c, 'q) IgnRenderer \<Rightarrow>
     frame_error + (('c, 'q) IgnRenderer \<times> (32 word \<times> QSize) option \<times> event list)" where
  "RenderNext api sc app r =
     (let r1 = (if \<not> initialized r then Initialize api sc r else r)
      in if \<not> initialized r1 then Inr (r1, None, [])
         else
           case Render api app r1 of
             Inl e \<Rightarrow> Inl e
           | Inr (r2, es) \<Rightarrow> Inr (r2, Some (textureId r2, textureSize r2), es))"

text \<open>
  The camera on which \<^verbatim>\<open>Render\<close> reads the texture id and then calls \<^verbatim>\<open>Update\<close>: the one
  that leaves the resize block.
\<close>

definition camera_before_update ::
  "('c, 'q) Engine \<Rightarrow> ('c, 'q) IgnRenderer \<Rightarrow> 'c" where
  "camera_before_update api r =
     (case resize_block api r of Inl e \<Rightarrow> camera (dataPtr r) | Inr r1 \<Rightarrow> camera (dataPtr r1))"

text \<open>
  The conversion of a \<^verbatim>\<open>double\<close> to a 32-bit \<^verbatim>\<open>int\<close>, which the constructor
  \<^verbatim>\<open>QSize(int, int)\<close> applies to the \<^verbatim>\<open>qreal\<close> width and height of the item. The fraction
  is dropped. When what is left does not fit in an \<^verbatim>\<open>int\<close>, C++ leaves the result
  undefined; the conversion instruction of x86-64 then delivers the least \<^verbatim>\<open>int\<close>, and
  that is the value taken here.
\<close>

definition to_int :: "real \<Rightarrow> int" where
  "to_int x =
     (if - 2147483649 < x \<and> x < 2147483648 then (if 0 \<le> x then \<lfloor>x\<rfloor> else \<lceil>x\<rceil>)
      else - 2147483648)"

text \<open>
  \<^verbatim>\<open>RenderThread::SizeChanged\<close> (lines 749-763). The argument is the width and height of
  the sending item, \<open>None\<close> when the sender is not a \<^verbatim>\<open>QQuickItem\<close>.
\<close>

definition SizeChanged ::
  "(real \<times> real) option \<Rightarrow> ('c, 'q) IgnRenderer \<Rightarrow> ('c, 'q) IgnRenderer" where
  "SizeChanged item r =
     (case item of
        None \<Rightarrow> r
      | Some (width, height) \<Rightarrow>
          if width \<le> 0 \<or> height \<le> 0 then r
          else r\<lparr>textureSize := (to_int width, to_int height), textureDirty := True\<rparr>)"

text \<open>
  \<^verbatim>\<open>RenderWindowItem::Ready\<close> (lines 888-907), as far as the renderer is concerned: line
  895 sets the first texture size from the width and height of the item.
\<close>

definition Ready :: "real \<times> real \<Rightarrow> ('c, 'q) IgnRenderer \<Rightarrow> ('c, 'q) IgnRenderer" where
  "Ready item r =
     r\<lparr>textureSize := (to_int (max (fst item) 1), to_int (max (snd item) 1))\<rparr>"

fun size_changes ::
  "(real \<times> real) option list \<Rightarrow> ('c, 'q) IgnRenderer \<Rightarrow> ('c, 'q) IgnRenderer" where
  "size_changes [] r = r"
| "size_changes (item # items) r = size_changes items (SizeChanged item r)"

text \<open>
  A size change that \<^verbatim>\<open>SizeChanged\<close> ignores, or one whose height is at least 1 and fits in
  an \<^verbatim>\<open>int\<close> (it is below \<open>2^31\<close>): the heights strictly between 0 and 1 and the heights
  from \<open>2^31\<close> on are the ones left out.
\<close>

definition height_in_range :: "(real \<times> real) option \<Rightarrow> bool" where
  "height_in_range item =
     (case item of
        None \<Rightarrow> True
      | Some (width, height) \<Rightarrow>
          height \<le> 0 \<or> width \<le> 0 \<or> 1 \<le> height \<and> height < 2147483648)"

section \<open>TextureNode: the texture swap on the Qt side\<close>

text \<open>
  The wrapper that \<^verbatim>\<open>createTextureFromId\<close> builds around a GL texture id, and the members
  of \<^verbatim>\<open>TextureNode\<close> (\<^verbatim>\<open>id\<close>, \<^verbatim>\<open>size\<close>, \<^verbatim>\<open>texture\<close>; the prefix avoids the constants
  \<open>id\<close> and \<open>size\<close> of HOL).
\<close>

record QSGTexture =
  gl_id :: "32 word"
  gl_size :: QSize

record TextureNode =
  node_id :: "32 word"
  node_size :: QSize
  node_texture :: QSGTexture

text \<open>What a member function of \<^verbatim>\<open>TextureNode\<close> does besides changing the members.\<close>

datatype node_effect =
  MutexLock
  | MutexUnlock
  | DeleteTexture QSGTexture
  | CreateTextureFromId "32 word" QSize
  | SetTexture QSGTexture
  | MarkDirtyMaterial
  | EmitPendingNewTexture
  | EmitTextureInUse
  | CallWaitForWorkerThread

text \<open>The constructor (lines 766-779): the default texture 0 of size 1 by 1.\<close>

definition TextureNode_new :: TextureNode where
  "TextureNode_new =
     \<lparr>node_id = 0, node_size = (0, 0), node_texture = \<lparr>gl_id = 0, gl_size = (1, 1)\<rparr>\<rparr>"

text \<open>\<^verbatim>\<open>TextureNode::NewTexture\<close> (lines 788-798).\<close>

definition NewTexture :: "32 word \<Rightarrow> QSize \<Rightarrow> TextureNode \<Rightarrow> TextureNode \<times> node_effect list" where
  "NewTexture i sz n =
     (n\<lparr>node_id := i, node_size := sz\<rparr>, [MutexLock, MutexUnlock, EmitPendingNewTexture])"

text \<open>
  \<^verbatim>\<open>TextureNode::PrepareNode\<close> (lines 801-861). Both branches of the Qt version test call
  \<^verbatim>\<open>createTextureFromId(newId, sz, TextureIsOpaque)\<close>.
\<close>

definition PrepareNode :: "TextureNode \<Rightarrow> TextureNode \<times> node_effect list" where
  "PrepareNode n =
     (let newId = node_id n; sz = node_size n; n1 = n\<lparr>node_id := 0\<rparr>
      in if newId \<noteq> 0
         then
           let t = \<lparr>gl_id = newId, gl_size = sz\<rparr>
           in (n1\<lparr>node_texture := t\<rparr>,
               [MutexLock, MutexUnlock, DeleteTexture (node_texture n),
                CreateTextureFromId newId sz, SetTexture t, MarkDirtyMaterial,
                EmitTextureInUse, CallWaitForWorkerThread])
         else (n1, [MutexLock, MutexUnlock, EmitTextureInUse, CallWaitForWorkerThread]))"

definition swaps_texture :: "node_effect \<Rightarrow> bool" where
  "swaps_texture e =
     (case e of DeleteTexture _ \<Rightarrow> True | CreateTextureFromId _ _ \<Rightarrow> True
              | SetTexture _ \<Rightarrow> True | MarkDirtyMaterial \<Rightarrow> True | _ \<Rightarrow> False)"

section \<open>A small engine for the examples\<close>

text \<open>
  A camera with two render textures that \<open>Update\<close> swaps, and a ray query that remembers
  the normalised coordinates it was given, when they are finite, and reports an intersection
  only in the left half of the image. These serve as concrete inputs below; no claim
  depends on them otherwise.
\<close>

fun demo_set_ray :: "coordinate \<times> coordinate \<Rightarrow> real \<times> real \<Rightarrow> real \<times> real" where
  "demo_set_ray (Finite a, Finite b) q = (a, b)"
| "demo_set_ray n q = q"

record demo_camera =
  front_texture :: "32 word"
  back_texture :: "32 word"
  cam_width :: nat
  cam_height :: nat

definition demo_engine :: "(demo_camera, real \<times> real) Engine" where
  "demo_engine =
     \<lparr>ImageWidth = cam_width, ImageHeight = cam_height,
      SetImageWidth = (\<lambda>w c. c\<lparr>cam_width := nat w\<rparr>),
      SetImageHeight = (\<lambda>h c. c\<lparr>cam_height := nat h\<rparr>),
      SetAspectRatio = (\<lambda>a c. c),
      PreRender = (\<lambda>c. c),
      RenderTextureGLId = front_texture,
      Update = (\<lambda>c. c\<lparr>front_texture := back_texture c, back_texture := front_texture c\<rparr>),
      SetFromCamera = (\<lambda>c n q. demo_set_ray n q),
      ClosestPoint = (\<lambda>q. \<lparr>intersects = (fst q < 0), point = (fst q, snd q, 0)\<rparr>),
      Origin = (\<lambda>q. (0, 0, 5)),
      Direction = (\<lambda>q. (fst q, snd q, - 1))\<rparr>"

definition no_mouse_event :: MouseEvent where
  "no_mouse_event =
     \<lparr>ePos = (0, 0), ePressPos = (0, 0), eButton = OtherButton 0, eType = OtherMouseType 0,
      eDragging = False, eControl = False, eShift = False, eAlt = False\<rparr>"

definition no_key_event :: KeyEvent where
  "no_key_event =
     \<lparr>kKey = 0, kType = Key_NO_EVENT, kControl = False, kShift = False, kAlt = False\<rparr>"

definition demo_data :: "(demo_camera, real \<times> real) Implementation" where
  "demo_data =
     \<lparr>mouseDirty = False, hoverDirty = False, dropDirty = False,
      mouseEvent = no_mouse_event, keyEvent = no_key_event,
      camera = \<lparr>front_texture = 7, back_texture = 9, cam_width = 800, cam_height = 600\<rparr>,
      mouseHoverPos = (0, 0), mouseDropPos = (0, 0), dropText = [], rayQuery = (0, 0)\<rparr>"

definition demo_renderer :: "(demo_camera, real \<times> real) IgnRenderer" where
  "demo_renderer =
     \<lparr>initialized = True, textureDirty = False, textureSize = (800, 600), textureId = 0,
      dataPtr = demo_data\<rparr>"

definition demo_scene :: "(demo_camera, real \<times> real) Scene" where
  "demo_scene =
     \<lparr>engine_supported = True, gridEnable = True, grid_visual_exists = False,
      grid_created = True,
      CreateCamera = \<lparr>front_texture = 7, back_texture = 9, cam_width = 1, cam_height = 1\<rparr>,
      ConfigureCamera = (\<lambda>c. c), SetAntiAliasingAndHFOV = (\<lambda>c. c),
      CreateRayQuery = (\<lambda>c. (0, 0))\<rparr>"

text \<open>
  Pending input for the examples: a key press with no other input pending; a hover together
  with the release of the left button after a plain click; the release of
  the left button at the end of a drag (\<^verbatim>\<open>mouseReleaseEvent\<close>, line 1267, keeps the dragging
  flag of the event before); a move of the pointer with no button held.
\<close>

definition key_pressed :: "(demo_camera, real \<times> real) Implementation" where
  "key_pressed = HandleKeyPress (no_key_event\<lparr>kKey := 65, kType := Key_PRESS\<rparr>) demo_data"

definition released_after_drag :: "(demo_camera, real \<times> real) Implementation" where
  "released_after_drag =
     NewMouseEvent (no_mouse_event\<lparr>ePos := (200, 150), eButton := LEFT, eType := RELEASE,
                                   eDragging := True\<rparr>) demo_data"

definition pointer_moved :: "(demo_camera, real \<times> real) Implementation" where
  "pointer_moved = NewMouseEvent (no_mouse_event\<lparr>ePos := (10, 20), eType := MOVE\<rparr>) demo_data"

definition hover_and_click :: "(demo_camera, real \<times> real) Implementation" where
  "hover_and_click =
     NewHoverEvent (600, 450)
       (NewMouseEvent (no_mouse_event\<lparr>ePos := (200, 150), eButton := LEFT, eType := RELEASE\<rparr>)
          demo_data)"

section \<open>Proofs: the hand-off\<close>

lemma inv_init: "sync_inv (init_sync N)"
  by (simp add: sync_inv_def init_sync_def)

lemma in_frame_holds: "in_frame w \<Longrightarrow> worker_holds w"
  by (cases w) simp_all

lemma inv_worker: "sync_inv s \<Longrightarrow> s' \<in> set (worker_succs s) \<Longrightarrow> sync_inv s'"
  by (cases "wpc s"; cases "renderStallState s")
     (auto simp: sync_inv_def worker_succs_def notify_one_def worker_may_go_def split: if_splits)

lemma inv_qt: "sync_inv s \<Longrightarrow> s' \<in> set (qt_succs N s) \<Longrightarrow> sync_inv s'"
  by (cases "qpc s"; cases "renderStallState s")
     (auto simp: sync_inv_def qt_succs_def notify_one_def qt_may_go_def split: if_splits
           dest: in_frame_holds)

lemma inv_gui: "sync_inv s \<Longrightarrow> s' \<in> set (gui_succs s) \<Longrightarrow> sync_inv s'"
  by (cases "gpc s"; cases "renderStallState s")
     (auto simp: sync_inv_def gui_succs_def notify_one_def split: if_splits dest: in_frame_holds)

lemma inv_spurious: "sync_inv s \<Longrightarrow> s' \<in> set (succs N (Spurious t) s) \<Longrightarrow> sync_inv s'"
  by (cases t) (auto simp: sync_inv_def split: if_splits)

lemma inv_call: "sync_inv s \<Longrightarrow> s' \<in> set (succs N CallShutdown s) \<Longrightarrow> sync_inv s'"
  by (auto simp: sync_inv_def split: if_splits)

lemma quiet_worker:
  "sync_inv s \<Longrightarrow> quiet_inv s \<Longrightarrow> s' \<in> set (worker_succs s) \<Longrightarrow> quiet_inv s'"
  by (cases "wpc s"; cases "renderStallState s")
     (auto simp: sync_inv_def quiet_inv_def worker_succs_def notify_one_def worker_may_go_def
           split: if_splits)

lemma quiet_qt:
  "sync_inv s \<Longrightarrow> quiet_inv s \<Longrightarrow> s' \<in> set (qt_succs N s) \<Longrightarrow> quiet_inv s'"
  by (cases "qpc s"; cases "renderStallState s")
     (auto simp: sync_inv_def quiet_inv_def qt_succs_def notify_one_def qt_may_go_def
           split: if_splits dest: in_frame_holds)

lemma quiet_gui:
  "sync_inv s \<Longrightarrow> quiet_inv s \<Longrightarrow> s' \<in> set (gui_succs s) \<Longrightarrow> quiet_inv s'"
  by (cases "gpc s")
     (auto simp: quiet_inv_def gui_succs_def notify_one_def split: if_splits)

lemma quiet_spurious: "quiet_inv s \<Longrightarrow> s' \<in> set (succs N (Spurious t) s) \<Longrightarrow> quiet_inv s'"
  by (auto simp: quiet_inv_def split: if_splits)

lemma quiet_call: "quiet_inv s \<Longrightarrow> s' \<in> set (succs N CallShutdown s) \<Longrightarrow> quiet_inv s'"
  by (auto simp: quiet_inv_def split: if_splits)

lemma reachable_inv: "reachable N s \<Longrightarrow> sync_inv s \<and> quiet_inv s"
proof (induction rule: reachable.induct)
  case reachable_init
  show ?case by (simp add: sync_inv_def quiet_inv_def init_sync_def)
next
  case (reachable_step s s' a)
  then have s: "sync_inv s" and q: "quiet_inv s" by simp_all
  from reachable_step.hyps(2) show ?case
  proof (cases a)
    case (Run t)
    with reachable_step.hyps(2) s q show ?thesis
      by (cases t) (auto intro: inv_qt inv_worker inv_gui quiet_qt quiet_worker quiet_gui)
  next
    case (Spurious t)
    with reachable_step.hyps(2) s q show ?thesis
      using inv_spurious quiet_spurious by blast
  next
    case CallShutdown
    with reachable_step.hyps(2) s q show ?thesis
      using inv_call quiet_call by blast
  qed
qed

lemma exec_reachable: "reachable N s \<Longrightarrow> exec N as s = Some s' \<Longrightarrow> reachable N s'"
proof (induction as arbitrary: s)
  case Nil
  then show ?case by simp
next
  case (Cons a as)
  then obtain s1 rest where s1: "succs N a s = s1 # rest" and e: "exec N as s1 = Some s'"
    by (auto split: list.splits)
  from s1 have "s1 \<in> set (succs N a s)" by simp
  with Cons.prems(1) have "reachable N s1" by (rule reachable_step)
  then show ?case using e by (rule Cons.IH)
qed

lemma no_sleeper:
  "QtThread \<notin> W \<Longrightarrow> WorkerThread \<notin> W \<Longrightarrow> GuiThread \<notin> W \<Longrightarrow> W = {}"
proof -
  assume a: "QtThread \<notin> W" "WorkerThread \<notin> W" "GuiThread \<notin> W"
  have "t \<notin> W" for t using a by (cases t) simp_all
  then show "W = {}" by blast
qed

lemma qt_holder_runs: "qt_holds (qpc s) \<Longrightarrow> qt_succs N s \<noteq> []"
  by (cases "qpc s") (simp_all add: qt_succs_def)

lemma worker_holder_runs: "worker_holds (wpc s) \<Longrightarrow> worker_succs s \<noteq> []"
  by (cases "wpc s") (simp_all add: worker_succs_def)

lemma gui_holder_runs: "gui_holds (gpc s) \<Longrightarrow> gui_succs s \<noteq> []"
  by (cases "gpc s") (simp_all add: gui_succs_def)

lemma notify_one_nonempty: "notify_one s \<noteq> []"
proof (cases "waiters s = {}")
  case True
  then show ?thesis by (simp add: notify_one_def)
next
  case False
  then have "QtThread \<in> waiters s \<or> WorkerThread \<in> waiters s \<or> GuiThread \<in> waiters s"
    using no_sleeper by blast
  then show ?thesis by (auto simp: notify_one_def)
qed

lemma qt_free_runs:
  "mutex s = None \<Longrightarrow> qpc s \<noteq> Q_Done \<Longrightarrow> qpc s \<noteq> Q_Sleep1 \<Longrightarrow>
   qt_succs N s = [] \<Longrightarrow> qpc s = Q_Sleep2 \<and> QtThread \<in> waiters s"
  by (cases "qpc s") (simp_all add: qt_succs_def notify_one_nonempty split: if_splits)

lemma worker_free_runs:
  "mutex s = None \<Longrightarrow> worker_succs s = [] \<Longrightarrow> wpc s = W_Sleep \<and> WorkerThread \<in> waiters s"
  by (cases "wpc s") (simp_all add: worker_succs_def notify_one_nonempty split: if_splits)

lemma no_deadlock_inv:
  assumes "sync_inv s"
  shows "\<not> (blocked N QtThread s \<and> blocked N WorkerThread s \<and> gui_succs s = [])"
proof
  assume b: "blocked N QtThread s \<and> blocked N WorkerThread s \<and> gui_succs s = []"
  then have q: "qt_succs N s = []" "qpc s \<noteq> Q_Done" and w: "worker_succs s = []"
    and g: "gui_succs s = []"
    by (simp_all add: blocked_def)
  from assms have own: "(mutex s = Some QtThread) = qt_holds (qpc s)"
      "(mutex s = Some WorkerThread) = worker_holds (wpc s)"
      "(mutex s = Some GuiThread) = gui_holds (gpc s)"
    and ns: "qpc s \<noteq> Q_Sleep1" and both: "\<not> (QtThread \<in> waiters s \<and> WorkerThread \<in> waiters s)"
    by (simp_all add: sync_inv_def)
  show False
  proof (cases "mutex s")
    case None
    from qt_free_runs [OF None q(2) ns q(1)] worker_free_runs [OF None w] both
    show False by simp
  next
    case (Some t)
    with own q(1) w g qt_holder_runs [of s N] worker_holder_runs [of s] gui_holder_runs [of s]
    show False by (cases t) auto
  qed
qed

lemma quiet_not_blocked:
  assumes "sync_inv s" and "gpc s = G_Idle"
  shows "\<not> (blocked N QtThread s \<and> blocked N WorkerThread s)"
proof -
  from assms(2) have "gui_succs s = []" by (simp add: gui_succs_def)
  with no_deadlock_inv [OF assms(1), of N] show ?thesis by simp
qed

text \<open>
  Claim C1. Start from the initial state \<^verbatim>\<open>QtCanProceed\<close>, let the Qt thread make \<open>N\<close> calls
  of \<^verbatim>\<open>WaitForWorkerThread\<close> one after the other and let the worker loop over
  \<^verbatim>\<open>WaitForQtThreadAndBlock\<close>, the frame and \<^verbatim>\<open>ReleaseQtThreadFromBlock\<close>. In every state
  the system can reach, under every interleaving and with spurious wake-ups allowed, it is
  not the case that the Qt thread and the worker are both blocked while \<^verbatim>\<open>Shutdown\<close> cannot
  move either; in particular, as long as \<^verbatim>\<open>Shutdown\<close> was not called, the two threads are
  never both blocked. As long as \<^verbatim>\<open>Shutdown\<close> was not called, the worker has completed as
  many cycles (and rendered as many frames) as calls have returned whenever the Qt thread
  is at the entry of a call or has made all its calls, and exactly one more when the Qt
  thread is at the return of a call: each call returns after exactly one worker cycle,
  whose \<^verbatim>\<open>ReleaseQtThreadFromBlock\<close> has set \<^verbatim>\<open>QtCanProceed\<close> and released the mutex (its
  final \<^verbatim>\<open>notify_one\<close> may still be to come).
\<close>

theorem handoff_cycles:
  "reachable N s \<Longrightarrow>
     \<not> (blocked N QtThread s \<and> blocked N WorkerThread s \<and> gui_succs s = []) \<and>
     (gpc s = G_Idle \<longrightarrow>
        \<not> (blocked N QtThread s \<and> blocked N WorkerThread s) \<and>
        (qpc s = Q_Lock1 \<or> qpc s = Q_Done \<longrightarrow>
           cycles s = calls_done s \<and> renders s = calls_done s) \<and>
        (qpc s = Q_Return \<longrightarrow>
           cycles s = calls_done s + 1 \<and> renders s = calls_done s + 1 \<and>
           renderStallState s = QtCanProceed) \<and>
        calls_done s \<le> cycles s \<and> cycles s \<le> calls_done s + 1)"
proof -
  assume "reachable N s"
  then have i: "sync_inv s" and q: "quiet_inv s" using reachable_inv by blast+
  have d: "\<not> (blocked N QtThread s \<and> blocked N WorkerThread s \<and> gui_succs s = [])"
    using i by (rule no_deadlock_inv)
  have b: "gpc s = G_Idle \<Longrightarrow> \<not> (blocked N QtThread s \<and> blocked N WorkerThread s)"
    using i by (rule quiet_not_blocked)
  have r: "gpc s = G_Idle \<Longrightarrow> qpc s = Q_Return \<Longrightarrow>
           cycles s = calls_done s + 1 \<and> renders s = calls_done s + 1 \<and>
           renderStallState s = QtCanProceed"
    using i q by (cases "wpc s"; cases "renderStallState s") (auto simp: sync_inv_def quiet_inv_def)
  have e: "gpc s = G_Idle \<Longrightarrow> qpc s = Q_Lock1 \<or> qpc s = Q_Done \<Longrightarrow>
           cycles s = calls_done s \<and> renders s = calls_done s"
    using i q by (cases "wpc s") (auto simp: sync_inv_def quiet_inv_def)
  have m: "gpc s = G_Idle \<Longrightarrow> calls_done s \<le> cycles s \<and> cycles s \<le> calls_done s + 1"
    using q by (auto simp: quiet_inv_def)
  from d b r e m show ?thesis by blast
qed

lemmas sync_eval =
  init_sync_def qt_succs_def worker_succs_def gui_succs_def notify_one_def
  qt_may_go_def worker_may_go_def

lemma first_call_exec: "exec 2 sched_first_call (init_sync 2) = Some after_first_call"
  by (simp add: sched_first_call_def after_first_call_def sync_eval)

text \<open>
  Witness for C1: two calls to make, the state at the return of the first call.
\<close>

theorem handoff_cycles_witness:
  "reachable 2 after_first_call \<and> gpc after_first_call = G_Idle \<and>
   qpc after_first_call = Q_Return \<and> calls_done after_first_call = 0 \<and>
   cycles after_first_call = 1 \<and> renders after_first_call = 1 \<and>
   \<not> blocked 2 QtThread after_first_call"
proof -
  have r: "reachable 2 after_first_call"
    using reachable_init first_call_exec by (rule exec_reachable)
  from handoff_cycles [OF r] show ?thesis
    using r by (simp add: after_first_call_def blocked_def qt_succs_def)
qed

text \<open>
  Claim C2 as stated fails. The worker calls \<^verbatim>\<open>Render\<close> first and sleeps inside
  \<^verbatim>\<open>WaitForQtThreadAndBlock\<close>; \<^verbatim>\<open>Shutdown\<close> sets \<^verbatim>\<open>ShuttingDown\<close> and releases the mutex
  (state \<open>blocked_at_shutdown\<close>). After the \<^verbatim>\<open>notify_one\<close> of \<^verbatim>\<open>Shutdown\<close> the worker wakes,
  line 217 sets \<^verbatim>\<open>WorkerIsProceeding\<close>, and the frame is rendered.
\<close>

theorem shutdown_blocked_worker_counterexample:
  "exec 1 sched_shutdown_while_blocked (init_sync 1) = Some blocked_at_shutdown \<and>
   exec 1 sched_wake_and_go blocked_at_shutdown =
     Some \<lparr>renderStallState = WorkerIsProceeding, mutex = Some WorkerThread, waiters = {},
           qpc = Q_Lock1, wpc = W_Release, gpc = G_Done,
           calls_done = 0, renders = 1, cycles = 0\<rparr>"
  by (simp add: sched_shutdown_while_blocked_def sched_wake_and_go_def blocked_at_shutdown_def sync_eval)

lemma wait_ends_on_shutdown:
  "wpc s = W_Wait \<Longrightarrow> renderStallState s = ShuttingDown \<Longrightarrow>
   exec N [Run WorkerThread, Run WorkerThread, Run WorkerThread] s =
     Some (s\<lparr>renderStallState := WorkerIsProceeding, renders := renders s + 1,
             wpc := W_Release\<rparr>)"
  by (simp add: worker_succs_def worker_may_go_def)

text \<open>
  Claim C2, amended. If \<^verbatim>\<open>Shutdown\<close> has set the state to \<^verbatim>\<open>ShuttingDown\<close> while the worker
  sleeps inside \<^verbatim>\<open>WaitForQtThreadAndBlock\<close>, then the \<^verbatim>\<open>notify_one\<close> of \<^verbatim>\<open>Shutdown\<close> wakes the
  worker and its wait ends without blocking again; the call then sets the state to
  \<^verbatim>\<open>WorkerIsProceeding\<close>, and \<^verbatim>\<open>Render\<close> goes on to render the frame.
\<close>

theorem shutdown_blocked_worker:
  "wpc s = W_Sleep \<Longrightarrow> waiters s = {WorkerThread} \<Longrightarrow> mutex s = None \<Longrightarrow>
   gpc s = G_Notify \<Longrightarrow> renderStallState s = ShuttingDown \<Longrightarrow>
   exec N sched_wake_and_go s =
     Some (s\<lparr>renderStallState := WorkerIsProceeding, mutex := Some WorkerThread,
             waiters := {}, wpc := W_Release, gpc := G_Done, renders := renders s + 1\<rparr>)"
  by (simp add: sched_wake_and_go_def gui_succs_def worker_succs_def notify_one_def
        worker_may_go_def)

text \<open>
  Witness for the amended C2, at the state \<open>blocked_at_shutdown\<close> of the counterexample.
\<close>

theorem shutdown_blocked_worker_witness:
  "wpc blocked_at_shutdown = W_Sleep \<and> waiters blocked_at_shutdown = {WorkerThread} \<and>
   mutex blocked_at_shutdown = None \<and> gpc blocked_at_shutdown = G_Notify \<and>
   renderStallState blocked_at_shutdown = ShuttingDown \<and>
   map_option renderStallState (exec 1 sched_wake_and_go blocked_at_shutdown) =
     Some WorkerIsProceeding \<and>
   map_option renders (exec 1 sched_wake_and_go blocked_at_shutdown) = Some 1"
  using shutdown_blocked_worker [of blocked_at_shutdown 1]
  by (simp add: blocked_at_shutdown_def)

text \<open>
  Claim C3 as stated fails in its last part. \<^verbatim>\<open>Shutdown\<close> is called while the worker is
  about to render (state \<open>mid_cycle_at_shutdown\<close>); the cycle finishes, \<^verbatim>\<open>Shutdown\<close> runs, and
  the worker's next call of \<^verbatim>\<open>WaitForQtThreadAndBlock\<close> finds \<^verbatim>\<open>ShuttingDown\<close> (state
  \<open>next_block_call\<close>). The call does not exit without proceeding: the state becomes
  \<^verbatim>\<open>WorkerIsProceeding\<close> and a second frame is rendered.
\<close>

theorem shutdown_mid_cycle_counterexample:
  "exec 1 sched_shutdown_mid_cycle (init_sync 1) = Some mid_cycle_at_shutdown \<and>
   exec 1 sched_finish_then_shutdown mid_cycle_at_shutdown = Some next_block_call \<and>
   exec 1 sched_three_worker_steps next_block_call =
     Some \<lparr>renderStallState = WorkerIsProceeding, mutex = Some WorkerThread, waiters = {},
           qpc = Q_Lock2, wpc = W_Release, gpc = G_Done,
           calls_done = 0, renders = 2, cycles = 1\<rparr>"
  by (simp add: sched_shutdown_mid_cycle_def mid_cycle_at_shutdown_def sched_finish_then_shutdown_def
        next_block_call_def sched_three_worker_steps_def sync_eval)

text \<open>
  Claim C3, amended. If \<^verbatim>\<open>Shutdown\<close> is called while the state is \<^verbatim>\<open>WorkerIsProceeding\<close>,
  the worker holds the mutex, so \<^verbatim>\<open>Shutdown\<close> waits at its lock and cannot set the state yet;
  the worker cycle finishes as usual, its \<^verbatim>\<open>ReleaseQtThreadFromBlock\<close> setting
  \<^verbatim>\<open>QtCanProceed\<close> and releasing the mutex. When a later call of
  \<^verbatim>\<open>WaitForQtThreadAndBlock\<close> (state \<open>s2\<close>) tests its predicate and finds \<^verbatim>\<open>ShuttingDown\<close>, it
  does not block: it sets \<^verbatim>\<open>WorkerIsProceeding\<close> and the next frame is rendered.
\<close>

theorem shutdown_mid_cycle:
  "reachable N s \<Longrightarrow> renderStallState s = WorkerIsProceeding \<Longrightarrow> gpc s = G_Lock \<Longrightarrow>
     gui_succs s = [] \<and> mutex s = Some WorkerThread \<and>
     (wpc s = W_Render \<or> wpc s = W_Release) \<and>
     exec N (finish_cycle (wpc s)) s =
       Some (s\<lparr>renderStallState := QtCanProceed, mutex := None, wpc := W_Notify,
               renders := cycles s + 1, cycles := cycles s + 1\<rparr>) \<and>
     (wpc s2 = W_Wait \<and> renderStallState s2 = ShuttingDown \<longrightarrow>
        exec N sched_three_worker_steps s2 =
          Some (s2\<lparr>renderStallState := WorkerIsProceeding, renders := renders s2 + 1,
                   wpc := W_Release\<rparr>))"
proof -
  assume r: "reachable N s" and p: "renderStallState s = WorkerIsProceeding"
    and g: "gpc s = G_Lock"
  from r have i: "sync_inv s" using reachable_inv by blast
  from i p have f: "in_frame (wpc s)" by (simp add: sync_inv_def)
  then have w: "wpc s = W_Render \<or> wpc s = W_Release" by (cases "wpc s") simp_all
  from f have "worker_holds (wpc s)" by (rule in_frame_holds)
  with i have m: "mutex s = Some WorkerThread" by (simp add: sync_inv_def)
  from g m have b: "gui_succs s = []" by (simp add: gui_succs_def)
  from i have c: "renders s = cycles s + frame_counted (wpc s)" by (simp add: sync_inv_def)
  have e: "exec N (finish_cycle (wpc s)) s =
       Some (s\<lparr>renderStallState := QtCanProceed, mutex := None, wpc := W_Notify,
               renders := cycles s + 1, cycles := cycles s + 1\<rparr>)"
    using w c by (auto simp: finish_cycle_def worker_succs_def)
  have n: "wpc s2 = W_Wait \<and> renderStallState s2 = ShuttingDown \<longrightarrow>
        exec N sched_three_worker_steps s2 =
          Some (s2\<lparr>renderStallState := WorkerIsProceeding, renders := renders s2 + 1,
                   wpc := W_Release\<rparr>)"
    unfolding sched_three_worker_steps_def using wait_ends_on_shutdown [of s2 N] by blast
  from b m w e n show ?thesis by blast
qed

text \<open>
  Witness for the amended C3, at the two states of the counterexample.
\<close>

theorem shutdown_mid_cycle_witness:
  "reachable 1 mid_cycle_at_shutdown \<and>
   renderStallState mid_cycle_at_shutdown = WorkerIsProceeding \<and>
   gpc mid_cycle_at_shutdown = G_Lock \<and> gui_succs mid_cycle_at_shutdown = [] \<and>
   map_option renderStallState
     (exec 1 (finish_cycle (wpc mid_cycle_at_shutdown)) mid_cycle_at_shutdown) =
     Some QtCanProceed \<and>
   wpc next_block_call = W_Wait \<and> renderStallState next_block_call = ShuttingDown \<and>
   map_option renderStallState (exec 1 sched_three_worker_steps next_block_call) =
     Some WorkerIsProceeding \<and>
   map_option renders (exec 1 sched_three_worker_steps next_block_call) = Some 2"
proof -
  have "exec 1 sched_shutdown_mid_cycle (init_sync 1) = Some mid_cycle_at_shutdown"
    by (simp add: sched_shutdown_mid_cycle_def mid_cycle_at_shutdown_def sync_eval)
  with reachable_init have r: "reachable 1 mid_cycle_at_shutdown" by (rule exec_reachable)
  have p: "renderStallState mid_cycle_at_shutdown = WorkerIsProceeding"
    and g: "gpc mid_cycle_at_shutdown = G_Lock"
    by (simp_all add: mid_cycle_at_shutdown_def)
  from shutdown_mid_cycle [OF r p g, of next_block_call] r p g show ?thesis
    by (simp add: next_block_call_def)
qed

section \<open>Proofs: dispatch of the pending input\<close>

lemma dispatched_append: "dispatched (xs @ ys) = dispatched xs @ dispatched ys"
  by (simp add: dispatched_def map_filter_def)

lemma dispatched_simps [simp]:
  "dispatched [] = []"
  "dispatched (e # es) =
     (case dispatch_of e of None \<Rightarrow> dispatched es | Some c \<Rightarrow> c # dispatched es)"
  by (simp_all add: dispatched_def map_filter_def split: option.splits)

lemma Hover_effect:
  "mouseDirty (fst (BroadcastHoverPos api d)) = mouseDirty d"
  "hoverDirty (fst (BroadcastHoverPos api d)) = False"
  "dropDirty (fst (BroadcastHoverPos api d)) = dropDirty d"
  "mouseEvent (fst (BroadcastHoverPos api d)) = mouseEvent d"
  "keyEvent (fst (BroadcastHoverPos api d)) = keyEvent d"
  "camera (fst (BroadcastHoverPos api d)) = camera d"
  "dispatched (snd (BroadcastHoverPos api d)) = (if hoverDirty d then [Hover] else [])"
  by (simp_all add: BroadcastHoverPos_def Let_def split: prod.splits)

lemma Drag_effect:
  "mouseDirty (fst (BroadcastDrag d)) = (mouseDirty d \<and> \<not> eDragging (mouseEvent d))"
  "hoverDirty (fst (BroadcastDrag d)) = hoverDirty d"
  "dropDirty (fst (BroadcastDrag d)) = dropDirty d"
  "mouseEvent (fst (BroadcastDrag d)) = mouseEvent d"
  "keyEvent (fst (BroadcastDrag d)) = keyEvent d"
  "camera (fst (BroadcastDrag d)) = camera d"
  "dispatched (snd (BroadcastDrag d)) =
     (if mouseDirty d \<and> eDragging (mouseEvent d) then [Drag] else [])"
  by (simp_all add: BroadcastDrag_def)

lemma MousePress_effect:
  "mouseDirty (fst (BroadcastMousePress d)) = (mouseDirty d \<and> eType (mouseEvent d) \<noteq> PRESS)"
  "hoverDirty (fst (BroadcastMousePress d)) = hoverDirty d"
  "dropDirty (fst (BroadcastMousePress d)) = dropDirty d"
  "mouseEvent (fst (BroadcastMousePress d)) = mouseEvent d"
  "keyEvent (fst (BroadcastMousePress d)) = keyEvent d"
  "camera (fst (BroadcastMousePress d)) = camera d"
  "dispatched (snd (BroadcastMousePress d)) =
     (if mouseDirty d \<and> eType (mouseEvent d) = PRESS then [GenericPress] else [])"
  by (simp_all add: BroadcastMousePress_def)

lemma LeftClick_effect:
  "mouseDirty (fst (BroadcastLeftClick api d)) =
     (mouseDirty d \<and> \<not> (eButton (mouseEvent d) = LEFT \<and> eType (mouseEvent d) = RELEASE))"
  "hoverDirty (fst (BroadcastLeftClick api d)) = hoverDirty d"
  "dropDirty (fst (BroadcastLeftClick api d)) = dropDirty d"
  "mouseEvent (fst (BroadcastLeftClick api d)) = mouseEvent d"
  "keyEvent (fst (BroadcastLeftClick api d)) = keyEvent d"
  "camera (fst (BroadcastLeftClick api d)) = camera d"
  "dispatched (snd (BroadcastLeftClick api d)) =
     (if mouseDirty d \<and> eButton (mouseEvent d) = LEFT \<and> eType (mouseEvent d) = RELEASE
      then [LeftClick] else [])"
  by (auto simp: BroadcastLeftClick_def Let_def split: prod.splits)

lemma RightClick_effect:
  "mouseDirty (fst (BroadcastRightClick api d)) =
     (mouseDirty d \<and> \<not> (eButton (mouseEvent d) = RIGHT \<and> eType (mouseEvent d) = RELEASE))"
  "hoverDirty (fst (BroadcastRightClick api d)) = hoverDirty d"
  "dropDirty (fst (BroadcastRightClick api d)) = dropDirty d"
  "mouseEvent (fst (BroadcastRightClick api d)) = mouseEvent d"
  "keyEvent (fst (BroadcastRightClick api d)) = keyEvent d"
  "camera (fst (BroadcastRightClick api d)) = camera d"
  "dispatched (snd (BroadcastRightClick api d)) =
     (if mouseDirty d \<and> eButton (mouseEvent d) = RIGHT \<and> eType (mouseEvent d) = RELEASE
      then [RightClick] else [])"
  by (auto simp: BroadcastRightClick_def Let_def split: prod.splits)

lemma Scroll_effect:
  "mouseDirty (fst (BroadcastScroll d)) = (mouseDirty d \<and> eType (mouseEvent d) \<noteq> SCROLL)"
  "hoverDirty (fst (BroadcastScroll d)) = hoverDirty d"
  "dropDirty (fst (BroadcastScroll d)) = dropDirty d"
  "mouseEvent (fst (BroadcastScroll d)) = mouseEvent d"
  "keyEvent (fst (BroadcastScroll d)) = keyEvent d"
  "camera (fst (BroadcastScroll d)) = camera d"
  "dispatched (snd (BroadcastScroll d)) =
     (if mouseDirty d \<and> eType (mouseEvent d) = SCROLL then [Scroll] else [])"
  by (simp_all add: BroadcastScroll_def)

lemma KeyPress_effect:
  "mouseDirty (fst (BroadcastKeyPress d)) = mouseDirty d"
  "hoverDirty (fst (BroadcastKeyPress d)) = hoverDirty d"
  "dropDirty (fst (BroadcastKeyPress d)) = dropDirty d"
  "mouseEvent (fst (BroadcastKeyPress d)) = mouseEvent d"
  "camera (fst (BroadcastKeyPress d)) = camera d"
  "kType (keyEvent (fst (BroadcastKeyPress d))) =
     (if kType (keyEvent d) = Key_PRESS then Key_NO_EVENT else kType (keyEvent d))"
  "dispatched (snd (BroadcastKeyPress d)) =
     (if kType (keyEvent d) = Key_PRESS then [KeyPress] else [])"
  by (simp_all add: BroadcastKeyPress_def)

lemma KeyRelease_effect:
  "mouseDirty (fst (BroadcastKeyRelease d)) = mouseDirty d"
  "hoverDirty (fst (BroadcastKeyRelease d)) = hoverDirty d"
  "dropDirty (fst (BroadcastKeyRelease d)) = dropDirty d"
  "mouseEvent (fst (BroadcastKeyRelease d)) = mouseEvent d"
  "camera (fst (BroadcastKeyRelease d)) = camera d"
  "kType (keyEvent (fst (BroadcastKeyRelease d))) =
     (if kType (keyEvent d) = Key_RELEASE then Key_NO_EVENT else kType (keyEvent d))"
  "dispatched (snd (BroadcastKeyRelease d)) =
     (if kType (keyEvent d) = Key_RELEASE then [KeyRelease] else [])"
  by (simp_all add: BroadcastKeyRelease_def)

lemma Drop_effect:
  "mouseDirty (fst (BroadcastDrop d)) = mouseDirty d"
  "hoverDirty (fst (BroadcastDrop d)) = hoverDirty d"
  "dropDirty (fst (BroadcastDrop d)) = False"
  "mouseEvent (fst (BroadcastDrop d)) = mouseEvent d"
  "keyEvent (fst (BroadcastDrop d)) = keyEvent d"
  "camera (fst (BroadcastDrop d)) = camera d"
  "dispatched (snd (BroadcastDrop d)) = (if dropDirty d then [Drop] else [])"
  by (simp_all add: BroadcastDrop_def)

lemmas broadcast_effects =
  Hover_effect Drag_effect MousePress_effect LeftClick_effect RightClick_effect
  Scroll_effect KeyPress_effect KeyRelease_effect Drop_effect

lemma HandleMouseEvent_unfold:
  "HandleMouseEvent api d =
     (let r1 = BroadcastHoverPos api d;
          r2 = BroadcastDrag (fst r1);
          r3 = BroadcastMousePress (fst r2);
          r4 = BroadcastLeftClick api (fst r3);
          r5 = BroadcastRightClick api (fst r4);
          r6 = BroadcastScroll (fst r5);
          r7 = BroadcastKeyPress (fst r6);
          r8 = BroadcastKeyRelease (fst r7);
          r9 = BroadcastDrop (fst r8)
      in ((fst r9)\<lparr>mouseDirty := False\<rparr>,
          snd r1 @ snd r2 @ snd r3 @ snd r4 @ snd r5 @ snd r6 @ snd r7 @ snd r8 @ snd r9))"
  by (simp add: HandleMouseEvent_def Let_def split: prod.splits)

lemma dispatched_HandleMouseEvent:
  "dispatched (snd (HandleMouseEvent api d)) =
     (if hoverDirty d then [Hover] else []) @
     (if mouseDirty d then mouse_path (mouseEvent d) else []) @
     key_path (keyEvent d) @
     (if dropDirty d then [Drop] else [])"
  by (simp add: HandleMouseEvent_unfold Let_def dispatched_append broadcast_effects
        mouse_path_def key_path_def del: dispatched_simps)

lemma flags_HandleMouseEvent:
  "\<not> mouseDirty (fst (HandleMouseEvent api d))"
  "\<not> hoverDirty (fst (HandleMouseEvent api d))"
  "\<not> dropDirty (fst (HandleMouseEvent api d))"
  "mouseEvent (fst (HandleMouseEvent api d)) = mouseEvent d"
  "camera (fst (HandleMouseEvent api d)) = camera d"
  "kType (keyEvent (fst (HandleMouseEvent api d))) =
     (if kType (keyEvent d) = Key_PRESS \<or> kType (keyEvent d) = Key_RELEASE then Key_NO_EVENT
      else kType (keyEvent d))"
  by (simp_all add: HandleMouseEvent_unfold Let_def broadcast_effects)


lemma path_effects:
  "hoverDirty (fst (BroadcastHoverPos api d)) = (hoverDirty d \<and> snd (BroadcastHoverPos api d) = [])"
  "mouseDirty (fst (BroadcastDrag d)) = (mouseDirty d \<and> snd (BroadcastDrag d) = [])"
  "mouseDirty (fst (BroadcastMousePress d)) = (mouseDirty d \<and> snd (BroadcastMousePress d) = [])"
  "mouseDirty (fst (BroadcastLeftClick api d)) =
     (mouseDirty d \<and> snd (BroadcastLeftClick api d) = [])"
  "mouseDirty (fst (BroadcastRightClick api d)) =
     (mouseDirty d \<and> snd (BroadcastRightClick api d) = [])"
  "mouseDirty (fst (BroadcastScroll d)) = (mouseDirty d \<and> snd (BroadcastScroll d) = [])"
  "dropDirty (fst (BroadcastDrop d)) = (dropDirty d \<and> snd (BroadcastDrop d) = [])"
  "kType (keyEvent (fst (BroadcastKeyPress d))) =
     (if snd (BroadcastKeyPress d) = [] then kType (keyEvent d) else Key_NO_EVENT)"
  "kType (keyEvent (fst (BroadcastKeyRelease d))) =
     (if snd (BroadcastKeyRelease d) = [] then kType (keyEvent d) else Key_NO_EVENT)"
  by (auto simp: BroadcastHoverPos_def BroadcastDrag_def BroadcastMousePress_def
        BroadcastLeftClick_def BroadcastRightClick_def BroadcastScroll_def BroadcastDrop_def
        BroadcastKeyPress_def BroadcastKeyRelease_def Let_def split: prod.splits)

lemma mouse_path_is_mouse: "filter is_mouse (mouse_path e) = mouse_path e"
  by (simp add: mouse_path_def)

lemma key_path_not_mouse: "filter is_mouse (key_path k) = []"
  by (simp add: key_path_def)

lemma filter_mouse_HandleMouseEvent:
  "filter is_mouse (dispatched (snd (HandleMouseEvent api d))) =
     (if mouseDirty d then mouse_path (mouseEvent d) else [])"
  by (simp add: dispatched_HandleMouseEvent mouse_path_is_mouse key_path_not_mouse)

text \<open>
  Claim C6 as stated fails where it gives every category a dirty flag of its own. First
  input: a key press is pending and none of \<^verbatim>\<open>mouseDirty\<close>, \<^verbatim>\<open>hoverDirty\<close>, \<^verbatim>\<open>dropDirty\<close> is
  set; the key press is dispatched all the same, for no dirty flag guards it. Second input:
  the left button was released at the end of a drag, so the stored event passes the test of
  the drag path and that of the left-click path, and \<^verbatim>\<open>mouseDirty\<close> is set; only the drag is
  dispatched, because the drag path has cleared the one flag both paths read.
\<close>

theorem input_dispatch_counterexample:
  "dispatched (snd (HandleMouseEvent demo_engine key_pressed)) = [KeyPress] \<and>
   mouseDirty key_pressed = False \<and> hoverDirty key_pressed = False \<and>
   dropDirty key_pressed = False \<and>
   mouseDirty released_after_drag = True \<and>
   eButton (mouseEvent released_after_drag) = LEFT \<and>
   eType (mouseEvent released_after_drag) = RELEASE \<and>
   dispatched (snd (HandleMouseEvent demo_engine released_after_drag)) = [Drag]"
  by (simp add: dispatched_HandleMouseEvent mouse_path_def key_path_def key_pressed_def
        released_after_drag_def HandleKeyPress_def NewMouseEvent_def demo_data_def
        no_key_event_def no_mouse_event_def)

text \<open>
  Claim C6, amended. In each call of \<^verbatim>\<open>HandleMouseEvent\<close> every category is dispatched at
  most once. Hover is dispatched exactly when \<^verbatim>\<open>hoverDirty\<close> is set and drop exactly when
  \<^verbatim>\<open>dropDirty\<close> is set. The five mouse categories share the one flag \<^verbatim>\<open>mouseDirty\<close>: each is
  dispatched exactly when the flag is set, the stored mouse event passes its test, and no
  earlier path of the chain drag, generic press, left click, right click, scroll has taken
  the event. Key press and key release have no dirty flag: they are dispatched exactly when
  the type of the stored key event is \<^verbatim>\<open>PRESS\<close>, respectively \<^verbatim>\<open>RELEASE\<close>. Every dispatch path
  clears what guarded it and leaves it alone when it does not dispatch: its flag is set
  afterwards exactly when it was set before and nothing was sent, and the key paths reset
  the type to \<^verbatim>\<open>NO_EVENT\<close> exactly when they sent.
\<close>

theorem input_dispatch:
  "distinct (dispatched (snd (HandleMouseEvent api d))) \<and>
   (Hover \<in> set (dispatched (snd (HandleMouseEvent api d)))) = hoverDirty d \<and>
   (Drop \<in> set (dispatched (snd (HandleMouseEvent api d)))) = dropDirty d \<and>
   (Drag \<in> set (dispatched (snd (HandleMouseEvent api d)))) =
     (mouseDirty d \<and> eDragging (mouseEvent d)) \<and>
   (GenericPress \<in> set (dispatched (snd (HandleMouseEvent api d)))) =
     (mouseDirty d \<and> \<not> eDragging (mouseEvent d) \<and> eType (mouseEvent d) = PRESS) \<and>
   (LeftClick \<in> set (dispatched (snd (HandleMouseEvent api d)))) =
     (mouseDirty d \<and> \<not> eDragging (mouseEvent d) \<and> eButton (mouseEvent d) = LEFT \<and>
      eType (mouseEvent d) = RELEASE) \<and>
   (RightClick \<in> set (dispatched (snd (HandleMouseEvent api d)))) =
     (mouseDirty d \<and> \<not> eDragging (mouseEvent d) \<and> eButton (mouseEvent d) = RIGHT \<and>
      eType (mouseEvent d) = RELEASE) \<and>
   (Scroll \<in> set (dispatched (snd (HandleMouseEvent api d)))) =
     (mouseDirty d \<and> \<not> eDragging (mouseEvent d) \<and> eType (mouseEvent d) = SCROLL) \<and>
   (KeyPress \<in> set (dispatched (snd (HandleMouseEvent api d)))) =
     (kType (keyEvent d) = Key_PRESS) \<and>
   (KeyRelease \<in> set (dispatched (snd (HandleMouseEvent api d)))) =
     (kType (keyEvent d) = Key_RELEASE) \<and>
   hoverDirty (fst (BroadcastHoverPos api d)) =
     (hoverDirty d \<and> snd (BroadcastHoverPos api d) = []) \<and>
   mouseDirty (fst (BroadcastDrag d)) = (mouseDirty d \<and> snd (BroadcastDrag d) = []) \<and>
   mouseDirty (fst (BroadcastMousePress d)) =
     (mouseDirty d \<and> snd (BroadcastMousePress d) = []) \<and>
   mouseDirty (fst (BroadcastLeftClick api d)) =
     (mouseDirty d \<and> snd (BroadcastLeftClick api d) = []) \<and>
   mouseDirty (fst (BroadcastRightClick api d)) =
     (mouseDirty d \<and> snd (BroadcastRightClick api d) = []) \<and>
   mouseDirty (fst (BroadcastScroll d)) = (mouseDirty d \<and> snd (BroadcastScroll d) = []) \<and>
   dropDirty (fst (BroadcastDrop d)) = (dropDirty d \<and> snd (BroadcastDrop d) = []) \<and>
   kType (keyEvent (fst (BroadcastKeyPress d))) =
     (if snd (BroadcastKeyPress d) = [] then kType (keyEvent d) else Key_NO_EVENT) \<and>
   kType (keyEvent (fst (BroadcastKeyRelease d))) =
     (if snd (BroadcastKeyRelease d) = [] then kType (keyEvent d) else Key_NO_EVENT)"
proof -
  have 1: "distinct (dispatched (snd (HandleMouseEvent api d)))"
    by (simp add: dispatched_HandleMouseEvent mouse_path_def key_path_def)
  have 2: "(Hover \<in> set (dispatched (snd (HandleMouseEvent api d)))) = hoverDirty d"
    "(Drop \<in> set (dispatched (snd (HandleMouseEvent api d)))) = dropDirty d"
    "(KeyPress \<in> set (dispatched (snd (HandleMouseEvent api d)))) =
       (kType (keyEvent d) = Key_PRESS)"
    "(KeyRelease \<in> set (dispatched (snd (HandleMouseEvent api d)))) =
       (kType (keyEvent d) = Key_RELEASE)"
    by (simp_all add: dispatched_HandleMouseEvent mouse_path_def key_path_def)
  have 3: "(Drag \<in> set (dispatched (snd (HandleMouseEvent api d)))) =
       (mouseDirty d \<and> eDragging (mouseEvent d))"
    "(GenericPress \<in> set (dispatched (snd (HandleMouseEvent api d)))) =
       (mouseDirty d \<and> \<not> eDragging (mouseEvent d) \<and> eType (mouseEvent d) = PRESS)"
    "(LeftClick \<in> set (dispatched (snd (HandleMouseEvent api d)))) =
       (mouseDirty d \<and> \<not> eDragging (mouseEvent d) \<and> eButton (mouseEvent d) = LEFT \<and>
        eType (mouseEvent d) = RELEASE)"
    "(RightClick \<in> set (dispatched (snd (HandleMouseEvent api d)))) =
       (mouseDirty d \<and> \<not> eDragging (mouseEvent d) \<and> eButton (mouseEvent d) = RIGHT \<and>
        eType (mouseEvent d) = RELEASE)"
    "(Scroll \<in> set (dispatched (snd (HandleMouseEvent api d)))) =
       (mouseDirty d \<and> \<not> eDragging (mouseEvent d) \<and> eType (mouseEvent d) = SCROLL)"
    by (auto simp: dispatched_HandleMouseEvent mouse_path_def key_path_def)
  from 1 2 3 show ?thesis by (simp add: path_effects)
qed

text \<open>
  Example for the amended C6: a hover and the release of the left button are pending. Both
  are dispatched, each once, with the points that \<^verbatim>\<open>ScreenToScene\<close> computes, and the two
  paths leave their flags cleared; the drag path, which did not dispatch, leaves
  \<^verbatim>\<open>mouseDirty\<close> set.
\<close>

theorem input_dispatch_witness:
  "hoverDirty hover_and_click = True \<and> mouseDirty hover_and_click = True \<and>
   dispatched (snd (HandleMouseEvent demo_engine hover_and_click)) = [Hover, LeftClick] \<and>
   snd (HandleMouseEvent demo_engine hover_and_click) =
     [HoverToScene (5, - 5, - 5),
      HoverOnScene (no_mouse_event\<lparr>ePos := (600, 450), eButton := LEFT, eType := MOVE\<rparr>),
      LeftClickToScene (- 1 / 2, 1 / 2, 0),
      LeftClickOnScene (no_mouse_event\<lparr>ePos := (200, 150), eButton := LEFT,
                                        eType := RELEASE\<rparr>)] \<and>
   hoverDirty (fst (BroadcastHoverPos demo_engine hover_and_click)) = False \<and>
   mouseDirty (fst (BroadcastLeftClick demo_engine hover_and_click)) = False \<and>
   mouseDirty (fst (BroadcastDrag hover_and_click)) = True"
proof -
  have e: "snd (HandleMouseEvent demo_engine hover_and_click) =
     [HoverToScene (5, - 5, - 5),
      HoverOnScene (no_mouse_event\<lparr>ePos := (600, 450), eButton := LEFT, eType := MOVE\<rparr>),
      LeftClickToScene (- 1 / 2, 1 / 2, 0),
      LeftClickOnScene (no_mouse_event\<lparr>ePos := (200, 150), eButton := LEFT,
                                        eType := RELEASE\<rparr>)]"
    by (simp add: HandleMouseEvent_def BroadcastDrop_def BroadcastHoverPos_def
          BroadcastDrag_def BroadcastLeftClick_def BroadcastRightClick_def
          BroadcastMousePress_def BroadcastScroll_def BroadcastKeyRelease_def
          BroadcastKeyPress_def ScreenToScene_def normalized_def vec_add_def vec_scale_def
          hover_and_click_def NewHoverEvent_def NewMouseEvent_def demo_data_def
          demo_engine_def no_key_event_def no_mouse_event_def Let_def)
  have f: "hoverDirty hover_and_click = True \<and> mouseDirty hover_and_click = True \<and>
      eDragging (mouseEvent hover_and_click) = False \<and>
      eButton (mouseEvent hover_and_click) = LEFT \<and>
      eType (mouseEvent hover_and_click) = RELEASE"
    by (simp add: hover_and_click_def NewHoverEvent_def NewMouseEvent_def demo_data_def
          no_mouse_event_def)
  from input_dispatch [where api = demo_engine and d = hover_and_click] e f
  show ?thesis
    by (simp add: BroadcastHoverPos_def BroadcastLeftClick_def BroadcastDrag_def
          split: prod.splits)
qed

text \<open>
  Claim C9. \<^verbatim>\<open>BroadcastKeyPress\<close> and \<^verbatim>\<open>BroadcastKeyRelease\<close> send the stored key event
  exactly when its type is \<^verbatim>\<open>PRESS\<close>, respectively \<^verbatim>\<open>RELEASE\<close>, and then reset the type to
  \<^verbatim>\<open>NO_EVENT\<close>. After \<^verbatim>\<open>HandleMouseEvent\<close> the type is neither \<^verbatim>\<open>PRESS\<close> nor \<^verbatim>\<open>RELEASE\<close>, so
  a later call of \<^verbatim>\<open>HandleMouseEvent\<close>, on any pending input \<open>later\<close> whose key event is the
  one the first call left (no new key event), dispatches no key event.
\<close>

theorem key_edge_triggered:
  "snd (BroadcastKeyPress d) =
     (if kType (keyEvent d) = Key_PRESS then [KeyPressOnScene (keyEvent d)] else []) \<and>
   snd (BroadcastKeyRelease d) =
     (if kType (keyEvent d) = Key_RELEASE then [KeyReleaseOnScene (keyEvent d)] else []) \<and>
   kType (keyEvent (fst (BroadcastKeyPress d))) =
     (if kType (keyEvent d) = Key_PRESS then Key_NO_EVENT else kType (keyEvent d)) \<and>
   kType (keyEvent (fst (BroadcastKeyRelease d))) =
     (if kType (keyEvent d) = Key_RELEASE then Key_NO_EVENT else kType (keyEvent d)) \<and>
   kType (keyEvent (fst (HandleMouseEvent api d))) \<noteq> Key_PRESS \<and>
   kType (keyEvent (fst (HandleMouseEvent api d))) \<noteq> Key_RELEASE \<and>
   (keyEvent later = keyEvent (fst (HandleMouseEvent api d)) \<longrightarrow>
      filter is_key (dispatched (snd (HandleMouseEvent api later))) = [])"
proof -
  have a: "kType (keyEvent (fst (HandleMouseEvent api d))) \<noteq> Key_PRESS"
    "kType (keyEvent (fst (HandleMouseEvent api d))) \<noteq> Key_RELEASE"
    by (simp_all add: flags_HandleMouseEvent)
  have b: "filter is_key (dispatched (snd (HandleMouseEvent api later))) = []"
    if "keyEvent later = keyEvent (fst (HandleMouseEvent api d))"
    using that a by (simp add: dispatched_HandleMouseEvent key_path_def mouse_path_def)
  show ?thesis
    using a b by (simp add: BroadcastKeyPress_def BroadcastKeyRelease_def)
qed

text \<open>
  Witness for C9: a key press is dispatched in the first frame; a mouse event arrives and
  no key event; the second frame dispatches no key event.
\<close>

theorem key_edge_triggered_witness:
  "dispatched (snd (HandleMouseEvent demo_engine key_pressed)) = [KeyPress] \<and>
   kType (keyEvent (fst (HandleMouseEvent demo_engine key_pressed))) = Key_NO_EVENT \<and>
   keyEvent (NewMouseEvent no_mouse_event (fst (HandleMouseEvent demo_engine key_pressed))) =
     keyEvent (fst (HandleMouseEvent demo_engine key_pressed)) \<and>
   filter is_key
     (dispatched (snd (HandleMouseEvent demo_engine
        (NewMouseEvent no_mouse_event (fst (HandleMouseEvent demo_engine key_pressed)))))) = []"
proof -
  have k: "keyEvent (NewMouseEvent no_mouse_event (fst (HandleMouseEvent demo_engine key_pressed))) =
     keyEvent (fst (HandleMouseEvent demo_engine key_pressed))"
    by (simp add: NewMouseEvent_def)
  have p: "kType (keyEvent key_pressed) = Key_PRESS"
    by (simp add: key_pressed_def HandleKeyPress_def no_key_event_def)
  from key_edge_triggered [where d = key_pressed and api = demo_engine and
      later = "NewMouseEvent no_mouse_event (fst (HandleMouseEvent demo_engine key_pressed))"]
    k p
  show ?thesis
    by (simp add: dispatched_HandleMouseEvent flags_HandleMouseEvent key_path_def
          key_pressed_def HandleKeyPress_def demo_data_def no_key_event_def)
qed

text \<open>
  Claim C10. In every call of \<^verbatim>\<open>HandleMouseEvent\<close> at most one of the five mouse paths
  dispatches; each of the five paths reads \<^verbatim>\<open>mouseDirty\<close> and leaves it set exactly when it
  was set and the path sent nothing. After \<^verbatim>\<open>HandleMouseEvent\<close> the flag is false whatever
  happened, so the next call, with no new mouse event, dispatches no mouse event: a pending
  event that matched no path, such as a move with the dragging flag unset or the release of
  a button that is neither left nor right, is dispatched neither in this call nor later.
\<close>

theorem mouse_dispatch_once:
  "length (filter is_mouse (dispatched (snd (HandleMouseEvent api d)))) \<le> 1 \<and>
   mouseDirty (fst (BroadcastDrag d)) = (mouseDirty d \<and> snd (BroadcastDrag d) = []) \<and>
   mouseDirty (fst (BroadcastMousePress d)) =
     (mouseDirty d \<and> snd (BroadcastMousePress d) = []) \<and>
   mouseDirty (fst (BroadcastLeftClick api d)) =
     (mouseDirty d \<and> snd (BroadcastLeftClick api d) = []) \<and>
   mouseDirty (fst (BroadcastRightClick api d)) =
     (mouseDirty d \<and> snd (BroadcastRightClick api d) = []) \<and>
   mouseDirty (fst (BroadcastScroll d)) = (mouseDirty d \<and> snd (BroadcastScroll d) = []) \<and>
   mouseDirty (fst (HandleMouseEvent api d)) = False \<and>
   filter is_mouse (dispatched (snd (HandleMouseEvent api (fst (HandleMouseEvent api d))))) = [] \<and>
   (mouseDirty d \<and> \<not> eDragging (mouseEvent d) \<and>
    (eType (mouseEvent d) = MOVE \<or>
     eType (mouseEvent d) = RELEASE \<and> eButton (mouseEvent d) \<noteq> LEFT \<and>
     eButton (mouseEvent d) \<noteq> RIGHT) \<longrightarrow>
      filter is_mouse (dispatched (snd (HandleMouseEvent api d))) = [])"
proof -
  have 1: "length (filter is_mouse (dispatched (snd (HandleMouseEvent api d)))) \<le> 1"
    by (simp add: filter_mouse_HandleMouseEvent mouse_path_def)
  have 2: "mouseDirty (fst (HandleMouseEvent api d)) = False"
    by (simp add: flags_HandleMouseEvent)
  have 3: "filter is_mouse
      (dispatched (snd (HandleMouseEvent api (fst (HandleMouseEvent api d))))) = []"
    by (simp add: filter_mouse_HandleMouseEvent flags_HandleMouseEvent)
  have 4: "mouseDirty d \<and> \<not> eDragging (mouseEvent d) \<and>
    (eType (mouseEvent d) = MOVE \<or>
     eType (mouseEvent d) = RELEASE \<and> eButton (mouseEvent d) \<noteq> LEFT \<and>
     eButton (mouseEvent d) \<noteq> RIGHT) \<longrightarrow>
      filter is_mouse (dispatched (snd (HandleMouseEvent api d))) = []"
    by (auto simp: filter_mouse_HandleMouseEvent mouse_path_def)
  from 1 2 3 4 show ?thesis by (simp add: path_effects)
qed

text \<open>
  Witness for C10: a move of the pointer with no drag. Nothing is dispatched in the first
  frame, the flag is cleared, and nothing is dispatched in the second frame.
\<close>

theorem mouse_dispatch_once_witness:
  "mouseDirty pointer_moved = True \<and> eDragging (mouseEvent pointer_moved) = False \<and>
   eType (mouseEvent pointer_moved) = MOVE \<and>
   dispatched (snd (HandleMouseEvent demo_engine pointer_moved)) = [] \<and>
   mouseDirty (fst (HandleMouseEvent demo_engine pointer_moved)) = False \<and>
   dispatched (snd (HandleMouseEvent demo_engine
     (fst (HandleMouseEvent demo_engine pointer_moved)))) = []"
proof -
  have p: "mouseDirty pointer_moved = True \<and> eDragging (mouseEvent pointer_moved) = False \<and>
     eType (mouseEvent pointer_moved) = MOVE \<and> hoverDirty pointer_moved = False \<and>
     dropDirty pointer_moved = False \<and> kType (keyEvent pointer_moved) = Key_NO_EVENT"
    by (simp add: pointer_moved_def NewMouseEvent_def no_mouse_event_def demo_data_def
          no_key_event_def)
  from mouse_dispatch_once [where api = demo_engine and d = pointer_moved] p show ?thesis
    by (simp add: dispatched_HandleMouseEvent flags_HandleMouseEvent key_path_def
          mouse_path_def)
qed


section \<open>Proofs: screen to scene, and the texture node\<close>

lemma normalized_finite:
  "0 < w \<Longrightarrow> 0 < h \<Longrightarrow>
   normalized w h p =
     (Finite (2 * real_of_int (fst p) / real w - 1),
      Finite (1 - 2 * real_of_int (snd p) / real h))"
  by (simp add: normalized_def Let_def)

lemma nx_in_range:
  assumes "0 < w"
  shows "(- 1 \<le> 2 * real_of_int x / real w - 1 \<and> 2 * real_of_int x / real w - 1 \<le> 1) =
         (0 \<le> x \<and> x \<le> int w)"
proof -
  have w: "0 < real w" using assms by simp
  have "(real_of_int x \<le> real w) = (real_of_int x \<le> real_of_int (int w))" by simp
  also have "\<dots> = (x \<le> int w)" by (simp only: of_int_le_iff)
  finally have u: "(real_of_int x \<le> real w) = (x \<le> int w)" .
  have "(- 1 \<le> 2 * real_of_int x / real w - 1) = (0 \<le> x)"
    using w by (simp add: zero_le_divide_iff)
  moreover have "(2 * real_of_int x / real w - 1 \<le> 1) = (x \<le> int w)"
    using w u by (simp add: divide_le_eq)
  ultimately show ?thesis by simp
qed

lemma ny_in_range:
  assumes "0 < h"
  shows "(- 1 \<le> 1 - 2 * real_of_int y / real h \<and> 1 - 2 * real_of_int y / real h \<le> 1) =
         (0 \<le> y \<and> y \<le> int h)"
proof -
  have "(- 1 \<le> 1 - 2 * real_of_int y / real h \<and> 1 - 2 * real_of_int y / real h \<le> 1) =
      (- 1 \<le> 2 * real_of_int y / real h - 1 \<and> 2 * real_of_int y / real h - 1 \<le> 1)"
    by auto
  with nx_in_range [OF assms, of y] show ?thesis by simp
qed

text \<open>
  Claim C8 as stated fails for the screen positions that lie off the image: nothing
  clamps. On an image of 800 by 600 the position \<open>(-100, 120)\<close>, which the release of a
  button outside the item produces, gives \<open>nx = -5/4\<close>, and the ray query is set from the
  camera at \<open>(-5/4, 3/5)\<close>, outside \<open>[-1,1] \<times> [-1,1]\<close>.
\<close>

theorem screen_to_scene_counterexample:
  "normalized 800 600 (- 100, 120) = (Finite (- 5 / 4), Finite (3 / 5)) \<and>
   snd (ScreenToScene demo_engine demo_data (- 100, 120)) = (- 5 / 4, 3 / 5) \<and>
   (- 5 / 4 :: real) < - 1"
  by (simp add: ScreenToScene_def normalized_def demo_engine_def demo_data_def Let_def)

text \<open>
  Claim C8, amended. For every screen position \<open>(x, y)\<close> and a camera whose image width and
  height are positive, \<^verbatim>\<open>ScreenToScene\<close> computes \<open>nx = 2x/width - 1\<close> and
  \<open>ny = 1 - 2y/height\<close>, sets the ray query from the camera at \<open>(nx, ny)\<close>, and returns
  the point of the closest intersection when the query reports one, and otherwise the
  origin of the ray plus 10 times its direction. The coordinates are not clamped: \<open>nx\<close>
  lies in \<open>[-1,1]\<close> exactly when \<open>0 \<le> x \<le> width\<close>, and \<open>ny\<close> lies in \<open>[-1,1]\<close> exactly when
  \<open>0 \<le> y \<le> height\<close>, with the y axis inverted: the corner \<open>(0, 0)\<close> goes to \<open>(-1, 1)\<close> and the
  corner \<open>(width, height)\<close> to \<open>(1, -1)\<close>. Finite \<^verbatim>\<open>double\<close>s are real numbers here.
\<close>

theorem screen_to_scene:
  "(0 < ImageWidth api (camera d) \<and> 0 < ImageHeight api (camera d) \<longrightarrow>
      ScreenToScene api d (x, y) =
        (let nx = 2 * real_of_int x / real (ImageWidth api (camera d)) - 1;
             ny = 1 - 2 * real_of_int y / real (ImageHeight api (camera d));
             q = SetFromCamera api (camera d) (Finite nx, Finite ny) (rayQuery d);
             result = ClosestPoint api q
         in (if intersects result then point result
             else vec_add (Origin api q) (vec_scale (Direction api q) 10), q))) \<and>
   vec_add (ox, oy, oz) (vec_scale (dx, dy, dz) 10) =
     (ox + dx * 10, oy + dy * 10, oz + dz * 10) \<and>
   (0 < w \<and> 0 < h \<longrightarrow>
      normalized w h (x, y) =
        (Finite (2 * real_of_int x / real w - 1), Finite (1 - 2 * real_of_int y / real h)) \<and>
      (- 1 \<le> 2 * real_of_int x / real w - 1 \<and> 2 * real_of_int x / real w - 1 \<le> 1) =
        (0 \<le> x \<and> x \<le> int w) \<and>
      (- 1 \<le> 1 - 2 * real_of_int y / real h \<and> 1 - 2 * real_of_int y / real h \<le> 1) =
        (0 \<le> y \<and> y \<le> int h) \<and>
      normalized w h (0, 0) = (Finite (- 1), Finite 1) \<and>
      normalized w h (int w, int h) = (Finite 1, Finite (- 1)))"
proof -
  have 0: "ScreenToScene api d (x, y) =
        (let nx = 2 * real_of_int x / real (ImageWidth api (camera d)) - 1;
             ny = 1 - 2 * real_of_int y / real (ImageHeight api (camera d));
             q = SetFromCamera api (camera d) (Finite nx, Finite ny) (rayQuery d);
             result = ClosestPoint api q
         in (if intersects result then point result
             else vec_add (Origin api q) (vec_scale (Direction api q) 10), q))"
    if "0 < ImageWidth api (camera d) \<and> 0 < ImageHeight api (camera d)"
    using that by (simp add: ScreenToScene_def normalized_finite Let_def)
  have 1: "vec_add (ox, oy, oz) (vec_scale (dx, dy, dz) 10) =
      (ox + dx * 10, oy + dy * 10, oz + dz * 10)"
    by (simp add: vec_add_def vec_scale_def)
  have 2: "normalized w h (x, y) =
        (Finite (2 * real_of_int x / real w - 1), Finite (1 - 2 * real_of_int y / real h)) \<and>
      normalized w h (0, 0) = (Finite (- 1), Finite 1) \<and>
      normalized w h (int w, int h) = (Finite 1, Finite (- 1))"
    if "0 < w \<and> 0 < h"
    using that by (simp add: normalized_finite)
  have 3: "(- 1 \<le> 2 * real_of_int x / real w - 1 \<and> 2 * real_of_int x / real w - 1 \<le> 1) =
        (0 \<le> x \<and> x \<le> int w)" if "0 < w \<and> 0 < h"
    using that nx_in_range [of w x] by simp
  have 4: "(- 1 \<le> 1 - 2 * real_of_int y / real h \<and> 1 - 2 * real_of_int y / real h \<le> 1) =
        (0 \<le> y \<and> y \<le> int h)" if "0 < w \<and> 0 < h"
    using that ny_in_range [of h y] by simp
  from 0 1 2 3 4 show ?thesis by blast
qed

text \<open>
  Witness for the amended C8, on an 800 by 600 image: a position where the ray query of
  the example engine reports an intersection, and one where it reports none.
\<close>

theorem screen_to_scene_witness:
  "ScreenToScene demo_engine demo_data (200, 150) = ((- 1 / 2, 1 / 2, 0), (- 1 / 2, 1 / 2)) \<and>
   ScreenToScene demo_engine demo_data (600, 450) = ((5, - 5, - 5), (1 / 2, - 1 / 2)) \<and>
   normalized 800 600 (200, 150) = (Finite (- 1 / 2), Finite (1 / 2)) \<and>
   normalized 800 600 (0, 0) = (Finite (- 1), Finite 1) \<and>
   normalized 800 600 (800, 600) = (Finite 1, Finite (- 1))"
  using screen_to_scene [where api = demo_engine and d = demo_data and x = 200 and y = 150
      and w = 800 and h = 600]
    screen_to_scene [where api = demo_engine and d = demo_data and x = 600 and y = 450
      and w = 800 and h = 600 and ox = 0 and oy = 0 and oz = 5 and dx = "1 / 2"
      and dy = "- 1 / 2" and dz = "- 1"]
  by (simp add: demo_engine_def demo_data_def Let_def)

text \<open>
  An image with no pixels: the coordinates that the ray query receives are not finite.
\<close>

lemma normalized_zero_size:
  "normalized 0 600 (5, 5) = (PlusInfinity, Finite (59 / 60)) \<and>
   normalized 800 0 (5, 5) = (Finite (- 79 / 80), MinusInfinity) \<and>
   normalized 0 0 (0, - 5) = (NotANumber, PlusInfinity)"
  by (simp add: normalized_def Let_def)

text \<open>
  Claim C4. \<^verbatim>\<open>PrepareNode\<close> takes the published texture id and resets it to 0, between the
  lock and the unlock of the node's mutex. When the id taken is not 0, the old texture
  wrapper is deleted, a new one is created from the id and the size taken and set as the
  node's texture, and the node is marked dirty. When the id taken is 0, the node's texture
  stays as it is and nothing is deleted, created, set or marked. In both cases the last
  thing the function does is to call \<^verbatim>\<open>WaitForWorkerThread\<close>, once.
\<close>

theorem texture_node_prepare:
  "node_id (fst (PrepareNode n)) = 0 \<and>
   (node_id n \<noteq> 0 \<longrightarrow>
      node_texture (fst (PrepareNode n)) = \<lparr>gl_id = node_id n, gl_size = node_size n\<rparr> \<and>
      DeleteTexture (node_texture n) \<in> set (snd (PrepareNode n)) \<and>
      CreateTextureFromId (node_id n) (node_size n) \<in> set (snd (PrepareNode n)) \<and>
      SetTexture \<lparr>gl_id = node_id n, gl_size = node_size n\<rparr> \<in> set (snd (PrepareNode n)) \<and>
      MarkDirtyMaterial \<in> set (snd (PrepareNode n))) \<and>
   (node_id n = 0 \<longrightarrow>
      node_texture (fst (PrepareNode n)) = node_texture n \<and>
      filter swaps_texture (snd (PrepareNode n)) = []) \<and>
   node_size (fst (PrepareNode n)) = node_size n \<and>
   take 2 (snd (PrepareNode n)) = [MutexLock, MutexUnlock] \<and>
   last (snd (PrepareNode n)) = CallWaitForWorkerThread \<and>
   count_list (snd (PrepareNode n)) CallWaitForWorkerThread = 1"
  by (simp add: PrepareNode_def Let_def swaps_texture_def)

text \<open>
  Witness for C4: a new node receives texture 7 of size 800 by 600 and is prepared twice.
  The first call deletes the default wrapper and builds the wrapper of texture 7; the
  second finds id 0, keeps that wrapper, and still calls \<^verbatim>\<open>WaitForWorkerThread\<close>.
\<close>

theorem texture_node_prepare_witness:
  "fst (PrepareNode (fst (NewTexture 7 (800, 600) TextureNode_new))) =
     \<lparr>node_id = 0, node_size = (800, 600),
      node_texture = \<lparr>gl_id = 7, gl_size = (800, 600)\<rparr>\<rparr> \<and>
   DeleteTexture \<lparr>gl_id = 0, gl_size = (1, 1)\<rparr>
     \<in> set (snd (PrepareNode (fst (NewTexture 7 (800, 600) TextureNode_new)))) \<and>
   PrepareNode (fst (PrepareNode (fst (NewTexture 7 (800, 600) TextureNode_new)))) =
     (\<lparr>node_id = 0, node_size = (800, 600),
       node_texture = \<lparr>gl_id = 7, gl_size = (800, 600)\<rparr>\<rparr>,
      [MutexLock, MutexUnlock, EmitTextureInUse, CallWaitForWorkerThread])"
  using texture_node_prepare [of "fst (NewTexture 7 (800, 600) TextureNode_new)"]
    texture_node_prepare [of "fst (PrepareNode (fst (NewTexture 7 (800, 600) TextureNode_new)))"]
  by (simp add: PrepareNode_def NewTexture_def TextureNode_new_def Let_def)


section \<open>Proofs: the frame and the texture size\<close>

lemma HandleMouseEvent_camera: "HandleMouseEvent api d = (d', es) \<Longrightarrow> camera d' = camera d"
  using flags_HandleMouseEvent(5) [of api d] by simp

lemma Render_reads_before_update:
  "Render api app r = Inr (r', es) \<Longrightarrow>
     textureId r' = RenderTextureGLId api (camera_before_update api r) \<and>
     camera (dataPtr r') = Update api (camera_before_update api r) \<and>
     textureSize r' = textureSize r"
  by (auto simp: Render_def camera_before_update_def resize_block_def Let_def
        split: sum.splits prod.splits if_splits dest: HandleMouseEvent_camera)

text \<open>
  Claim C5. Whenever \<^verbatim>\<open>RenderNext\<close> emits \<^verbatim>\<open>TextureReady\<close>, the texture id it carries is
  the one \<^verbatim>\<open>Render\<close> read from the camera as it left the resize block, and \<^verbatim>\<open>Update\<close> was
  called on that camera afterwards: the id was read before the frame was rendered.
\<close>

theorem published_texture:
  "RenderNext api sc app r = Inr (r', Some (i, sz), es) \<Longrightarrow>
     i = RenderTextureGLId api
           (camera_before_update api (if initialized r then r else Initialize api sc r)) \<and>
     camera (dataPtr r') =
       Update api (camera_before_update api (if initialized r then r else Initialize api sc r)) \<and>
     i = textureId r' \<and> sz = textureSize r'"
proof -
  assume a: "RenderNext api sc app r = Inr (r', Some (i, sz), es)"
  define r1 where "r1 = (if initialized r then r else Initialize api sc r)"
  from a have "Render api app r1 = Inr (r', es) \<and> i = textureId r' \<and> sz = textureSize r'"
    by (auto simp: RenderNext_def r1_def Let_def split: if_splits sum.splits)
  with Render_reads_before_update [of api app r1 r' es] show ?thesis
    by (simp add: r1_def)
qed


text \<open>
  Witness for C5, with the camera of the example engine, whose \<^verbatim>\<open>Update\<close> swaps two
  textures: the id published is 7, the id of the render texture after \<^verbatim>\<open>Update\<close> is 9.
\<close>

theorem published_texture_witness:
  "RenderNext demo_engine demo_scene True demo_renderer =
     Inr (demo_renderer
            \<lparr>textureId := 7,
             dataPtr := demo_data
               \<lparr>camera := \<lparr>front_texture = 9, back_texture = 7, cam_width = 800,
                           cam_height = 600\<rparr>\<rparr>\<rparr>,
          Some (7, (800, 600)), [PreRenderEvent, RenderEvent]) \<and>
   RenderTextureGLId demo_engine (camera_before_update demo_engine demo_renderer) = 7 \<and>
   RenderTextureGLId demo_engine
     (Update demo_engine (camera_before_update demo_engine demo_renderer)) = 9"
proof -
  have h: "HandleMouseEvent demo_engine demo_data = (demo_data, [])"
    by (simp add: HandleMouseEvent_def BroadcastDrop_def BroadcastHoverPos_def
          BroadcastDrag_def BroadcastLeftClick_def BroadcastRightClick_def
          BroadcastMousePress_def BroadcastScroll_def BroadcastKeyRelease_def
          BroadcastKeyPress_def demo_data_def no_key_event_def)
  have c: "camera_before_update demo_engine demo_renderer =
      \<lparr>front_texture = 7, back_texture = 9, cam_width = 800, cam_height = 600\<rparr>"
    by (simp add: camera_before_update_def resize_block_def demo_renderer_def demo_data_def)
  have e: "RenderNext demo_engine demo_scene True demo_renderer =
     Inr (demo_renderer
            \<lparr>textureId := 7,
             dataPtr := demo_data
               \<lparr>camera := \<lparr>front_texture = 9, back_texture = 7, cam_width = 800,
                           cam_height = 600\<rparr>\<rparr>\<rparr>,
          Some (7, (800, 600)), [PreRenderEvent, RenderEvent])"
    using h
    by (simp add: RenderNext_def Render_def resize_block_def demo_renderer_def Let_def
          demo_engine_def) (simp add: demo_data_def)
  have i: "initialized demo_renderer"
    by (simp add: demo_renderer_def)
  have u: "RenderTextureGLId demo_engine
      (Update demo_engine (camera_before_update demo_engine demo_renderer)) = 9"
    unfolding c by (simp add: demo_engine_def)
  from published_texture [OF e] i
  have p: "RenderTextureGLId demo_engine (camera_before_update demo_engine demo_renderer) = 7"
    by simp
  from e p u show ?thesis by (intro conjI)
qed

lemma to_int_fits: "- 2147483648 \<le> to_int x \<and> to_int x \<le> 2147483647"
proof (cases "- 2147483649 < x \<and> x < 2147483648")
  case True
  then have "\<lfloor>x\<rfloor> < 2147483648" and "- 2147483649 < \<lceil>x\<rceil>"
    by (simp_all add: floor_less_iff less_ceiling_iff)
  moreover have "0 \<le> x \<Longrightarrow> 0 \<le> \<lfloor>x\<rfloor>" and "\<not> 0 \<le> x \<Longrightarrow> \<lceil>x\<rceil> \<le> 0"
    by (simp_all add: ceiling_le_iff)
  ultimately show ?thesis using True by (auto simp: to_int_def)
next
  case False
  then show ?thesis by (auto simp: to_int_def)
qed

lemma to_int_ge_1: "1 \<le> x \<Longrightarrow> x < 2147483648 \<Longrightarrow> 1 \<le> to_int x"
  by (simp add: to_int_def le_floor_iff)

lemma to_int_truncates:
  "1 \<le> x \<Longrightarrow> x < 2147483648 \<Longrightarrow>
   real_of_int (to_int x) \<le> x \<and> x < real_of_int (to_int x) + 1"
  by (simp add: to_int_def)

lemma SizeChanged_height:
  "height_in_range item \<Longrightarrow> 1 \<le> snd (textureSize r) \<Longrightarrow>
   1 \<le> snd (textureSize (SizeChanged item r))"
  by (auto simp: height_in_range_def SizeChanged_def to_int_ge_1 split: option.splits)

lemma size_changes_height:
  "list_all height_in_range items \<Longrightarrow> 1 \<le> snd (textureSize r) \<Longrightarrow>
   1 \<le> snd (textureSize (size_changes items r))"
  by (induction items arbitrary: r) (simp_all add: SizeChanged_height)

lemma Render_error:
  "isl (Render api app r) \<Longrightarrow> textureDirty r \<and> snd (textureSize r) \<le> 0"
  by (auto simp: Render_def resize_block_def Let_def split: sum.splits prod.splits if_splits)

text \<open>
  Claim C7 as stated fails: \<^verbatim>\<open>SizeChanged\<close> does not clamp. With a texture size of 800 by
  600 stored, a size change to height 0 (or to a negative height) leaves the stored size
  and the dirty flag as they were; the height does not become 1.
\<close>

theorem size_change_counterexample:
  "textureSize (SizeChanged (Some (800, 0)) demo_renderer) = (800, 600) \<and>
   textureDirty (SizeChanged (Some (800, 0)) demo_renderer) = False \<and>
   SizeChanged (Some (800, - 5)) demo_renderer = demo_renderer"
  by (simp add: SizeChanged_def demo_renderer_def)

text \<open>
  Claim C7, amended. \<^verbatim>\<open>SizeChanged\<close> ignores a size change whose width or height is at
  most 0: the stored texture size and the dirty flag stay as they were. Any other size
  change stores the width and height, converted to \<^verbatim>\<open>int\<close>, and sets the dirty flag; the
  conversion always yields a 32-bit \<^verbatim>\<open>int\<close>, and a height of at least 1 and below \<open>2^31\<close> is
  stored with its fraction dropped, so it stays at least 1. The clamping to a minimum of 1
  is what \<^verbatim>\<open>Ready\<close> applies to the first texture size, for an item whose width and height
  are below \<open>2^31\<close>. Hence, after \<^verbatim>\<open>Ready\<close> on an item of a height below \<open>2^31\<close> and any
  sequence of size changes that are ignored or have a height of at least 1 and below
  \<open>2^31\<close>, the stored height is at least 1, and the division of the resize block in
  \<^verbatim>\<open>Render\<close> is neither a division by zero nor one by a negative height: \<^verbatim>\<open>Render\<close>
  completes.
\<close>

theorem size_change:
  "(width \<le> 0 \<or> height \<le> 0 \<longrightarrow> SizeChanged (Some (width, height)) r = r) \<and>
   (0 < width \<and> 0 < height \<longrightarrow>
      SizeChanged (Some (width, height)) r =
        r\<lparr>textureSize := (to_int width, to_int height), textureDirty := True\<rparr>) \<and>
   - 2147483648 \<le> to_int height \<and> to_int height \<le> 2147483647 \<and>
   (1 \<le> height \<and> height < 2147483648 \<longrightarrow>
      1 \<le> to_int height \<and> real_of_int (to_int height) \<le> height \<and>
      height < real_of_int (to_int height) + 1) \<and>
   textureSize (Ready item r) = (to_int (max (fst item) 1), to_int (max (snd item) 1)) \<and>
   (fst item < 2147483648 \<longrightarrow> 1 \<le> fst (textureSize (Ready item r))) \<and>
   (snd item < 2147483648 \<longrightarrow> 1 \<le> snd (textureSize (Ready item r))) \<and>
   (snd item < 2147483648 \<and> list_all height_in_range items \<longrightarrow>
      1 \<le> snd (textureSize (size_changes items (Ready item r))) \<and>
      \<not> isl (Render api app (size_changes items (Ready item r))))"
proof -
  have 1: "1 \<le> fst (textureSize (Ready item r))" if "fst item < 2147483648"
    using that by (simp add: Ready_def to_int_ge_1)
  have 2: "1 \<le> snd (textureSize (Ready item r))" if "snd item < 2147483648"
    using that by (simp add: Ready_def to_int_ge_1)
  have 3: "1 \<le> snd (textureSize (size_changes items (Ready item r)))"
    if "snd item < 2147483648 \<and> list_all height_in_range items"
    using that 2 size_changes_height by blast
  have 4: "\<not> isl (Render api app (size_changes items (Ready item r)))"
    if "snd item < 2147483648 \<and> list_all height_in_range items"
    using 3 [OF that] Render_error [of api app "size_changes items (Ready item r)"] by auto
  have 5: "1 \<le> height \<and> height < 2147483648 \<longrightarrow>
      1 \<le> to_int height \<and> real_of_int (to_int height) \<le> height \<and>
      height < real_of_int (to_int height) + 1"
    using to_int_ge_1 [of height] to_int_truncates [of height] by blast
  have 6: "(width \<le> 0 \<or> height \<le> 0 \<longrightarrow> SizeChanged (Some (width, height)) r = r) \<and>
   (0 < width \<and> 0 < height \<longrightarrow>
      SizeChanged (Some (width, height)) r =
        r\<lparr>textureSize := (to_int width, to_int height), textureDirty := True\<rparr>) \<and>
   textureSize (Ready item r) = (to_int (max (fst item) 1), to_int (max (snd item) 1))"
    by (auto simp: SizeChanged_def Ready_def)
  from 1 2 3 4 5 6 to_int_fits [of height] show ?thesis by blast
qed

text \<open>
  Witness for C7: an item of size 0.4 by 0.4 at \<^verbatim>\<open>Ready\<close>, then four size changes, two of
  which are ignored.
\<close>

theorem size_change_witness:
  "list_all height_in_range [Some (1024, 768), Some (640, 0), Some (- 3, 5), None] \<and>
   textureSize (Ready (2 / 5, 2 / 5) demo_renderer) = (1, 1) \<and>
   textureSize
     (size_changes [Some (1024, 768), Some (640, 0), Some (- 3, 5), None]
        (Ready (2 / 5, 2 / 5) demo_renderer)) = (1024, 768) \<and>
   isl (Render demo_engine True
     (size_changes [Some (1024, 768), Some (640, 0), Some (- 3, 5), None]
        (Ready (2 / 5, 2 / 5) demo_renderer))) = False"
proof -
  have l: "list_all height_in_range [Some (1024, 768), Some (640, 0), Some (- 3, 5), None]"
    by (simp add: height_in_range_def)
  have i: "snd (2 / 5 :: real, 2 / 5 :: real) < 2147483648"
    by simp
  from size_change [where items = "[Some (1024, 768), Some (640, 0), Some (- 3, 5), None]"
      and item = "(2 / 5, 2 / 5)" and r = demo_renderer and api = demo_engine and app = True]
    l i
  show ?thesis
    by (simp add: SizeChanged_def Ready_def to_int_def demo_renderer_def)
qed

text \<open>
  The sizes left out above. The width and height of a \<^verbatim>\<open>QQuickItem\<close> are \<^verbatim>\<open>qreal\<close>s. A
  height strictly between 0 and 1 passes the test of line 758, is stored as 0 by line 761,
  and the next frame divides by it at line 293. A height of \<open>2^32\<close> passes the test too and
  does not fit in an \<^verbatim>\<open>int\<close>: what is stored is negative.
\<close>

lemma fractional_height_divides_by_zero:
  "SizeChanged (Some (800, 1 / 2)) demo_renderer =
     demo_renderer\<lparr>textureSize := (800, 0), textureDirty := True\<rparr> \<and>
   Render demo_engine True (SizeChanged (Some (800, 1 / 2)) demo_renderer) = Inl DivisionByZero"
  by (simp add: SizeChanged_def to_int_def Render_def resize_block_def demo_renderer_def)

lemma huge_height_stored_negative:
  "SizeChanged (Some (800, 4294967296)) demo_renderer =
     demo_renderer\<lparr>textureSize := (800, - 2147483648), textureDirty := True\<rparr>"
  by (simp add: SizeChanged_def to_int_def demo_renderer_def)

end
